theory Spec2Isabelle
  imports Complex_Main
begin

section \<open>CVSS 4.0 calculator: data model\<close>

text \<open>
  The scoring engine of the repository (the CVSS 4.0 calculator module of the frontend)
  is embedded function by function.  A JavaScript metrics object is a finite map from
  property names to values; only string values are modelled, an absent property is
  \<open>None\<close> (\<open>undefined\<close> in the source).  The empty string is the only falsy
  string.  Strings are lists of 8-bit characters.

  Numbers: the source computes with IEEE doubles.  The model computes with exact rationals
  and keeps \<open>NaN\<close> as a separate value; a table lookup that yields \<open>undefined\<close>
  is \<open>None\<close>.  All constants of the source are decimals with one fractional digit.
\<close>

type_synonym metrics = "string \<Rightarrow> string option"

datatype jsnum = NaN | Num rat

datatype error = TypeError

text \<open>Option values of \<open>CVSS4_METRICS\<close> (\<open>options.map(o => o.value)\<close>), per base metric.\<close>

definition CVSS4_METRICS :: "(string \<times> string list) list" where
  "CVSS4_METRICS =
    [(''AV'', [''N'', ''A'', ''L'', ''P'']),
     (''AC'', [''L'', ''H'']),
     (''AT'', [''N'', ''P'']),
     (''PR'', [''N'', ''L'', ''H'']),
     (''UI'', [''N'', ''P'', ''A'']),
     (''VC'', [''H'', ''L'', ''N'']),
     (''VI'', [''H'', ''L'', ''N'']),
     (''VA'', [''H'', ''L'', ''N'']),
     (''SC'', [''H'', ''L'', ''N'']),
     (''SI'', [''H'', ''L'', ''N'']),
     (''SA'', [''H'', ''L'', ''N''])]"

definition CVSS4_DEFAULTS :: "(string \<times> string) list" where
  "CVSS4_DEFAULTS =
    [(''AV'', ''N''), (''AC'', ''L''), (''AT'', ''N''), (''PR'', ''N''), (''UI'', ''N''),
     (''VC'', ''N''), (''VI'', ''N''), (''VA'', ''N''),
     (''SC'', ''N''), (''SI'', ''N''), (''SA'', ''N'')]"

definition BASE_METRIC_ORDER :: "string list" where
  "BASE_METRIC_ORDER =
    [''AV'', ''AC'', ''AT'', ''PR'', ''UI'', ''VC'', ''VI'', ''VA'', ''SC'', ''SI'', ''SA'']"

definition LOOKUP_TABLE :: "(string \<times> rat) list" where
  "LOOKUP_TABLE =
  [
   (''000000'', 10), (''000001'', 9.9), (''000010'', 9.8), (''000011'', 9.5), (''000020'', 9.5),
   (''000021'', 9.2), (''000100'', 10), (''000101'', 9.6), (''000110'', 9.3), (''000111'', 8.7),
   (''000120'', 9.1), (''000121'', 8.1), (''000200'', 9.3), (''000201'', 9), (''000210'', 8.9),
   (''000211'', 8), (''000220'', 8.1), (''000221'', 6.8), (''001000'', 9.8), (''001001'', 9.5),
   (''001010'', 9.5), (''001011'', 9.2), (''001020'', 9), (''001021'', 8.4), (''001100'', 9.3),
   (''001101'', 9.2), (''001110'', 8.9), (''001111'', 8.1), (''001120'', 8.1), (''001121'', 6.5),
   (''001200'', 8.8), (''001201'', 8), (''001210'', 7.8), (''001211'', 7), (''001220'', 6.9),
   (''001221'', 4.8), (''002001'', 9.2), (''002011'', 8.2), (''002021'', 7.2), (''002101'', 7.9),
   (''002111'', 6.9), (''002121'', 5), (''002201'', 6.9), (''002211'', 5.5), (''002221'', 2.7),
   (''010000'', 9.9), (''010001'', 9.7), (''010010'', 9.5), (''010011'', 9.2), (''010020'', 9.2),
   (''010021'', 8.5), (''010100'', 9.5), (''010101'', 9.1), (''010110'', 9), (''010111'', 8.3),
   (''010120'', 8.4), (''010121'', 7.1), (''010200'', 9.2), (''010201'', 8.1), (''010210'', 8.2),
   (''010211'', 7.1), (''010220'', 7.2), (''010221'', 5.3), (''011000'', 9.5), (''011001'', 9.3),
   (''011010'', 9.2), (''011011'', 8.5), (''011020'', 8.5), (''011021'', 7.3), (''011100'', 9.2),
   (''011101'', 8.2), (''011110'', 8), (''011111'', 7.2), (''011120'', 7), (''011121'', 5.9),
   (''011200'', 8.4), (''011201'', 7), (''011210'', 7.1), (''011211'', 5.2), (''011220'', 5),
   (''011221'', 3), (''012001'', 8.6), (''012011'', 7.5), (''012021'', 5.2), (''012101'', 7.1),
   (''012111'', 5.2), (''012121'', 2.9), (''012201'', 6.3), (''012211'', 2.9), (''012221'', 1.7),
   (''100000'', 9.8), (''100001'', 9.5), (''100010'', 9.4), (''100011'', 8.7), (''100020'', 9.1),
   (''100021'', 8.1), (''100100'', 9.4), (''100101'', 8.9), (''100110'', 8.6), (''100111'', 7.4),
   (''100120'', 7.7), (''100121'', 6.4), (''100200'', 8.7), (''100201'', 7.5), (''100210'', 7.4),
   (''100211'', 6.3), (''100220'', 6.3), (''100221'', 4.9), (''101000'', 9.4), (''101001'', 8.9),
   (''101010'', 8.8), (''101011'', 7.7), (''101020'', 7.6), (''101021'', 6.7), (''101100'', 8.6),
   (''101101'', 7.6), (''101110'', 7.4), (''101111'', 5.8), (''101120'', 5.9), (''101121'', 5),
   (''101200'', 7.2), (''101201'', 5.7), (''101210'', 5.7), (''101211'', 5.2), (''101220'', 5.2),
   (''101221'', 2.5), (''102001'', 8.3), (''102011'', 7), (''102021'', 5.4), (''102101'', 6.5),
   (''102111'', 5.8), (''102121'', 2.6), (''102201'', 5.3), (''102211'', 2.1), (''102221'', 1.3),
   (''110000'', 9.5), (''110001'', 9), (''110010'', 8.8), (''110011'', 7.6), (''110020'', 7.6),
   (''110021'', 7), (''110100'', 9), (''110101'', 7.7), (''110110'', 7.5), (''110111'', 6.2),
   (''110120'', 6.1), (''110121'', 5.3), (''110200'', 7.7), (''110201'', 6.6), (''110210'', 6.8),
   (''110211'', 5.9), (''110220'', 5.2), (''110221'', 3), (''111000'', 8.9), (''111001'', 7.8),
   (''111010'', 7.6), (''111011'', 6.7), (''111020'', 6.2), (''111021'', 5.8), (''111100'', 7.4),
   (''111101'', 5.9), (''111110'', 5.7), (''111111'', 5.7), (''111120'', 4.7), (''111121'', 2.3),
   (''111200'', 6.1), (''111201'', 5.2), (''111210'', 5.7), (''111211'', 2.9), (''111220'', 2.4),
   (''111221'', 1.6), (''112001'', 7.1), (''112011'', 5.9), (''112021'', 3), (''112101'', 5.8),
   (''112111'', 2.6), (''112121'', 1.5), (''112201'', 2.3), (''112211'', 1.3), (''112221'', 0.6),
   (''200000'', 9.3), (''200001'', 8.7), (''200010'', 8.6), (''200011'', 7.2), (''200020'', 7.5),
   (''200021'', 5.8), (''200100'', 8.6), (''200101'', 7.4), (''200110'', 7.4), (''200111'', 6.1),
   (''200120'', 5.6), (''200121'', 3.4), (''200200'', 7), (''200201'', 5.4), (''200210'', 5.2),
   (''200211'', 4), (''200220'', 4), (''200221'', 2.2), (''201000'', 8.5), (''201001'', 7.5),
   (''201010'', 7.4), (''201011'', 5.5), (''201020'', 6.2), (''201021'', 5.1), (''201100'', 7.2),
   (''201101'', 5.7), (''201110'', 5.5), (''201111'', 4.1), (''201120'', 4.6), (''201121'', 1.9),
   (''201200'', 5.3), (''201201'', 3.6), (''201210'', 3.4), (''201211'', 1.9), (''201220'', 1.9),
   (''201221'', 0.8), (''202001'', 6.4), (''202011'', 5.1), (''202021'', 2), (''202101'', 4.7),
   (''202111'', 2.1), (''202121'', 1.1), (''202201'', 2.4), (''202211'', 0.9), (''202221'', 0.4),
   (''210000'', 8.8), (''210001'', 7.5), (''210010'', 7.3), (''210011'', 5.3), (''210020'', 6),
   (''210021'', 5), (''210100'', 7.3), (''210101'', 5.5), (''210110'', 5.9), (''210111'', 4),
   (''210120'', 4.1), (''210121'', 2), (''210200'', 5.4), (''210201'', 4.3), (''210210'', 4.5),
   (''210211'', 2.2), (''210220'', 2), (''210221'', 1.1), (''211000'', 7.5), (''211001'', 5.5),
   (''211010'', 5.8), (''211011'', 4.5), (''211020'', 4), (''211021'', 2.1), (''211100'', 6.1),
   (''211101'', 5.1), (''211110'', 4.8), (''211111'', 1.8), (''211120'', 2), (''211121'', 0.9),
   (''211200'', 4.6), (''211201'', 1.8), (''211210'', 1.7), (''211211'', 0.7), (''211220'', 0.8),
   (''211221'', 0.2), (''212001'', 5.3), (''212011'', 2.4), (''212021'', 1.4), (''212101'', 2.4),
   (''212111'', 1.2), (''212121'', 0.5), (''212201'', 1), (''212211'', 0.3), (''212221'', 0.1)
  ]"

text \<open>
  \<open>LOOKUP_TABLE[key]\<close>: \<open>None\<close> is \<open>undefined\<close>.  The scoring functions below
  read the table through a parameter \<open>tbl\<close>, so that what does not depend on the table
  can be stated; the program's functions are the instances at \<open>LOOKUP_TABLE\<close>.
\<close>

type_synonym table = "(string \<times> rat) list"

definition lookup :: "table \<Rightarrow> string \<Rightarrow> rat option" where
  "lookup tbl key = map_of tbl key"

definition METRIC_LEVELS :: "(string \<times> (string \<times> rat) list) list" where
  "METRIC_LEVELS =
    [(''AV'', [(''N'', 0.0), (''A'', 0.1), (''L'', 0.2), (''P'', 0.3)]),
     (''PR'', [(''N'', 0.0), (''L'', 0.1), (''H'', 0.2)]),
     (''UI'', [(''N'', 0.0), (''P'', 0.1), (''A'', 0.2)]),
     (''AC'', [(''L'', 0.0), (''H'', 0.1)]),
     (''AT'', [(''N'', 0.0), (''P'', 0.1)]),
     (''VC'', [(''H'', 0.0), (''L'', 0.1), (''N'', 0.2)]),
     (''VI'', [(''H'', 0.0), (''L'', 0.1), (''N'', 0.2)]),
     (''VA'', [(''H'', 0.0), (''L'', 0.1), (''N'', 0.2)]),
     (''SC'', [(''H'', 0.1), (''L'', 0.2), (''N'', 0.3)]),
     (''SI'', [(''S'', 0.0), (''H'', 0.1), (''L'', 0.2), (''N'', 0.3)]),
     (''SA'', [(''S'', 0.0), (''H'', 0.1), (''L'', 0.2), (''N'', 0.3)]),
     (''CR'', [(''H'', 0.0), (''M'', 0.1), (''L'', 0.2)]),
     (''IR'', [(''H'', 0.0), (''M'', 0.1), (''L'', 0.2)]),
     (''AR'', [(''H'', 0.0), (''M'', 0.1), (''L'', 0.2)]),
     (''E'',  [(''U'', 0.2), (''P'', 0.1), (''A'', 0.0)])]"

text \<open>
  \<open>MAX_COMPOSED\<close> and \<open>MAX_SEVERITY\<close>: objects indexed by digits.  An index that
  is not a property gives \<open>None\<close> (\<open>undefined\<close>).
\<close>

definition MAX_COMPOSED_eq1 :: "(nat \<times> string list) list" where
  "MAX_COMPOSED_eq1 =
    [(0, [''AV:N/PR:N/UI:N/'']),
     (1, [''AV:A/PR:N/UI:N/'', ''AV:N/PR:L/UI:N/'', ''AV:N/PR:N/UI:P/'']),
     (2, [''AV:P/PR:N/UI:N/'', ''AV:A/PR:L/UI:P/''])]"

definition MAX_COMPOSED_eq2 :: "(nat \<times> string list) list" where
  "MAX_COMPOSED_eq2 =
    [(0, [''AC:L/AT:N/'']),
     (1, [''AC:H/AT:N/'', ''AC:L/AT:P/''])]"

definition MAX_COMPOSED_eq3 :: "(nat \<times> (nat \<times> string list) list) list" where
  "MAX_COMPOSED_eq3 =
    [(0, [(0, [''VC:H/VI:H/VA:H/CR:H/IR:H/AR:H/'']),
          (1, [''VC:H/VI:H/VA:L/CR:M/IR:M/AR:H/'', ''VC:H/VI:H/VA:H/CR:M/IR:M/AR:M/''])]),
     (1, [(0, [''VC:L/VI:H/VA:H/CR:H/IR:H/AR:H/'', ''VC:H/VI:L/VA:H/CR:H/IR:H/AR:H/'']),
          (1, [''VC:L/VI:H/VA:L/CR:H/IR:M/AR:H/'', ''VC:L/VI:H/VA:H/CR:H/IR:M/AR:M/'',
               ''VC:H/VI:L/VA:H/CR:M/IR:H/AR:M/'', ''VC:H/VI:L/VA:L/CR:M/IR:H/AR:H/'',
               ''VC:L/VI:L/VA:H/CR:H/IR:H/AR:M/''])]),
     (2, [(1, [''VC:L/VI:L/VA:L/CR:H/IR:H/AR:H/''])])]"

definition MAX_COMPOSED_eq4 :: "(nat \<times> string list) list" where
  "MAX_COMPOSED_eq4 =
    [(0, [''SC:H/SI:S/SA:S/'']),
     (1, [''SC:H/SI:H/SA:H/'']),
     (2, [''SC:L/SI:L/SA:L/''])]"

definition MAX_COMPOSED_eq5 :: "(nat \<times> string list) list" where
  "MAX_COMPOSED_eq5 =
    [(0, [''E:A/'']),
     (1, [''E:P/'']),
     (2, [''E:U/''])]"

definition MAX_SEVERITY_eq1 :: "(nat \<times> rat) list" where
  "MAX_SEVERITY_eq1 = [(0, 1), (1, 4), (2, 5)]"

definition MAX_SEVERITY_eq2 :: "(nat \<times> rat) list" where
  "MAX_SEVERITY_eq2 = [(0, 1), (1, 2)]"

definition MAX_SEVERITY_eq3eq6 :: "(nat \<times> (nat \<times> rat) list) list" where
  "MAX_SEVERITY_eq3eq6 = [(0, [(0, 7), (1, 6)]), (1, [(0, 8), (1, 8)]), (2, [(1, 10)])]"

definition MAX_SEVERITY_eq4 :: "(nat \<times> rat) list" where
  "MAX_SEVERITY_eq4 = [(0, 6), (1, 5), (2, 4)]"

definition MAX_SEVERITY_eq5 :: "(nat \<times> rat) list" where
  "MAX_SEVERITY_eq5 = [(0, 1), (1, 1), (2, 1)]"

section \<open>JavaScript primitives used by the calculator\<close>

text \<open>Arithmetic on numbers; \<open>NaN\<close> is absorbing.  \<open>undefined\<close> coerces to \<open>NaN\<close>.\<close>

definition toNum :: "rat option \<Rightarrow> jsnum" where
  "toNum v = (case v of None \<Rightarrow> NaN | Some x \<Rightarrow> Num x)"

fun nadd :: "jsnum \<Rightarrow> jsnum \<Rightarrow> jsnum" where
  "nadd (Num a) (Num b) = Num (a + b)"
| "nadd _ _ = NaN"

fun nsub :: "jsnum \<Rightarrow> jsnum \<Rightarrow> jsnum" where
  "nsub (Num a) (Num b) = Num (a - b)"
| "nsub _ _ = NaN"

fun nmul :: "jsnum \<Rightarrow> jsnum \<Rightarrow> jsnum" where
  "nmul (Num a) (Num b) = Num (a * b)"
| "nmul _ _ = NaN"

text \<open>
  Division: every divisor of the source is a nonzero entry of \<open>MAX_SEVERITY\<close> times
  \<open>STEP\<close>, or the positive count \<open>n\<close>; a zero divisor, which would give an infinity in
  the source, is mapped to \<open>NaN\<close> here.
\<close>

fun ndiv :: "jsnum \<Rightarrow> jsnum \<Rightarrow> jsnum" where
  "ndiv (Num a) (Num b) = (if b = 0 then NaN else Num (a / b))"
| "ndiv _ _ = NaN"

fun isNaN :: "jsnum \<Rightarrow> bool" where
  "isNaN NaN = True"
| "isNaN (Num _) = False"

text \<open>\<open>v >= c\<close> and \<open>v > c\<close>: false on \<open>NaN\<close>.\<close>

fun nge :: "jsnum \<Rightarrow> rat \<Rightarrow> bool" where
  "nge (Num a) c = (a \<ge> c)"
| "nge NaN c = False"

fun ngt :: "jsnum \<Rightarrow> rat \<Rightarrow> bool" where
  "ngt (Num a) c = (a > c)"
| "ngt NaN c = False"

fun Math_min :: "rat \<Rightarrow> jsnum \<Rightarrow> jsnum" where
  "Math_min c (Num a) = Num (min c a)"
| "Math_min c NaN = NaN"

fun Math_max :: "rat \<Rightarrow> jsnum \<Rightarrow> jsnum" where
  "Math_max c (Num a) = Num (max c a)"
| "Math_max c NaN = NaN"

text \<open>\<open>Math.round\<close> rounds to the nearest integer, ties towards \<open>+\<infinity>\<close>.\<close>

definition Math_round :: "rat \<Rightarrow> rat" where
  "Math_round x = of_int \<lfloor>x + 1 / 2\<rfloor>"

fun roundHalfUp :: "jsnum \<Rightarrow> jsnum" where
  "roundHalfUp (Num v) = (let EPSILON = 1 / 10 ^ 6 in Num (Math_round ((v + EPSILON) * 10) / 10))"
| "roundHalfUp NaN = NaN"

text \<open>
  The sentinel \<open>-Infinity\<close> occurs only as the operand \<open>x ?? -Infinity\<close> of one
  \<open>Math.max\<close>, whose result is tested with \<open>isFinite\<close> at once.
\<close>

datatype extnum = NegInfinity | Fin rat

definition orNegInfinity :: "rat option \<Rightarrow> extnum" where
  "orNegInfinity v = (case v of None \<Rightarrow> NegInfinity | Some x \<Rightarrow> Fin x)"

fun ext_max :: "extnum \<Rightarrow> extnum \<Rightarrow> extnum" where
  "ext_max (Fin a) (Fin b) = Fin (max a b)"
| "ext_max (Fin a) NegInfinity = Fin a"
| "ext_max NegInfinity b = b"

fun finiteOrUndefined :: "extnum \<Rightarrow> rat option" where
  "finiteOrUndefined (Fin a) = Some a"
| "finiteOrUndefined NegInfinity = None"

text \<open>\<open>a || b\<close> on a property read: \<open>undefined\<close> and the empty string are falsy.\<close>

definition js_or :: "string option \<Rightarrow> string \<Rightarrow> string" where
  "js_or v d = (case v of None \<Rightarrow> d | Some s \<Rightarrow> if s = [] then d else s)"

text \<open>\<open>str.startsWith(pat)\<close>.\<close>

definition startsWith :: "string \<Rightarrow> string \<Rightarrow> bool" where
  "startsWith str pat = (take (length pat) str = pat)"

text \<open>\<open>str.indexOf(pat)\<close>: \<open>None\<close> is \<open>-1\<close>.\<close>

fun indexOf :: "string \<Rightarrow> string \<Rightarrow> nat option" where
  "indexOf [] pat = (if pat = [] then Some 0 else None)"
| "indexOf (c # cs) pat =
     (if startsWith (c # cs) pat then Some 0 else map_option Suc (indexOf cs pat))"

text \<open>\<open>str.split(sep)\<close> for a separator of one character; \<open>cur\<close> is the piece being read, reversed.\<close>

fun split_acc :: "char \<Rightarrow> string \<Rightarrow> string \<Rightarrow> string list" where
  "split_acc sep cur [] = [rev cur]"
| "split_acc sep cur (c # cs) =
     (if c = sep then rev cur # split_acc sep [] cs else split_acc sep (c # cur) cs)"

definition split :: "char \<Rightarrow> string \<Rightarrow> string list" where
  "split sep str = split_acc sep [] str"

text \<open>\<open>parts.join(sep)\<close>.\<close>

fun join :: "string \<Rightarrow> string list \<Rightarrow> string" where
  "join sep [] = []"
| "join sep [p] = p"
| "join sep (p # q # ps) = p @ sep @ join sep (q # ps)"

text \<open>\<open>str.replace(pat, '')\<close> with a string pattern: the first occurrence is removed.\<close>

fun replace_first :: "string \<Rightarrow> string \<Rightarrow> string" where
  "replace_first pat [] = []"
| "replace_first pat (c # cs) =
     (if startsWith (c # cs) pat then drop (length pat) (c # cs) else c # replace_first pat cs)"

text \<open>\<open>str.trim()\<close>: the white space and line terminators among the 8-bit characters.\<close>

definition isWhiteSpace :: "char \<Rightarrow> bool" where
  "isWhiteSpace c = (c \<in> set [CHR 0x09, CHR 0x0A, CHR 0x0B, CHR 0x0C, CHR 0x0D, CHR 0x20, CHR 0xA0])"

definition trim :: "string \<Rightarrow> string" where
  "trim str = rev (dropWhile isWhiteSpace (rev (dropWhile isWhiteSpace str)))"

text \<open>
  Template-string rendering of a natural number (its decimal digits), and \<open>Number\<close>
  on a string of one digit character.
\<close>

fun toString :: "nat \<Rightarrow> string" where
  "toString n =
     (if n < 10 then [''0123456789'' ! n]
      else toString (n div 10) @ [''0123456789'' ! (n mod 10)])"

declare toString.simps [simp del]

definition Number :: "char \<Rightarrow> nat" where
  "Number c = of_char c - 48"

section \<open>Effective values and the MacroVector\<close>

definition worstCase :: "(string \<times> string) list" where
  "worstCase = [(''E'', ''A''), (''CR'', ''H''), (''IR'', ''H''), (''AR'', ''H'')]"

definition effectiveValue :: "metrics \<Rightarrow> string \<Rightarrow> string" where
  "effectiveValue metrics metric =
     (let modified = ''M'' @ metric in
      case (if metrics modified \<noteq> Some ''X'' then metrics modified else None) of
        Some mval \<Rightarrow> mval
      | None \<Rightarrow>
          (let val = metrics metric in
           case (if val \<noteq> Some ''X'' then val else None) of
             None \<Rightarrow>
               (case map_of worstCase metric of
                  Some w \<Rightarrow> w
                | None \<Rightarrow> js_or (map_of CVSS4_DEFAULTS metric) ''N'')
           | Some v \<Rightarrow> v))"

definition macroVector :: "metrics \<Rightarrow> string" where
  "macroVector metrics =
     (let AV = effectiveValue metrics ''AV'';
          PR = effectiveValue metrics ''PR'';
          UI = effectiveValue metrics ''UI'';
          AC = effectiveValue metrics ''AC'';
          AT = effectiveValue metrics ''AT'';
          VC = effectiveValue metrics ''VC'';
          VI = effectiveValue metrics ''VI'';
          VA = effectiveValue metrics ''VA'';
          SC = effectiveValue metrics ''SC'';
          SI = effectiveValue metrics ''SI'';
          SA = effectiveValue metrics ''SA'';
          E  = effectiveValue metrics ''E'';
          CR = effectiveValue metrics ''CR'';
          IR = effectiveValue metrics ''IR'';
          AR = effectiveValue metrics ''AR'';
          MSI = js_or (metrics ''MSI'') ''X'';
          MSA = js_or (metrics ''MSA'') ''X'';
          eq1 = (if AV = ''N'' \<and> PR = ''N'' \<and> UI = ''N'' then 0
                 else if (AV = ''N'' \<or> PR = ''N'' \<or> UI = ''N'')
                         \<and> \<not> (AV = ''N'' \<and> PR = ''N'' \<and> UI = ''N'') \<and> AV \<noteq> ''P'' then 1
                 else 2);
          eq2 = (if AC = ''L'' \<and> AT = ''N'' then 0 else 1);
          eq3 = (if VC = ''H'' \<and> VI = ''H'' then 0
                 else if VC = ''H'' \<or> VI = ''H'' \<or> VA = ''H'' then 1
                 else 2);
          eq4 = (if MSI = ''S'' \<or> MSA = ''S'' then 0
                 else if SC = ''H'' \<or> SI = ''H'' \<or> SA = ''H'' then 1
                 else 2);
          eq5 = (if E = ''A'' then 0
                 else if E = ''P'' then 1
                 else 2);
          eq6 = (if (CR = ''H'' \<and> VC = ''H'') \<or> (IR = ''H'' \<and> VI = ''H'') \<or> (AR = ''H'' \<and> VA = ''H'')
                 then 0 else 1)
      in toString eq1 @ toString eq2 @ toString eq3 @ toString eq4 @ toString eq5 @ toString eq6)"

definition extractFromStr :: "string \<Rightarrow> string \<Rightarrow> string option" where
  "extractFromStr metric str =
     (case indexOf str (metric @ '':'') of
        None \<Rightarrow> None
      | Some idx \<Rightarrow>
          (let rest = drop (idx + length metric + 1) str in
           case indexOf rest ''/'' of
             Some slashIdx \<Rightarrow> Some (take slashIdx rest)
           | None \<Rightarrow> Some rest))"

text \<open>\<open>METRIC_LEVELS[metric][v]\<close>; a value that is no level is \<open>undefined\<close>, hence \<open>NaN\<close> in a difference.\<close>

definition level :: "(string \<times> rat) list \<Rightarrow> string \<Rightarrow> jsnum" where
  "level levels v = toNum (map_of levels v)"

text \<open>The \<open>distances\<close> object, as the list of its entries in insertion order.\<close>

definition severityDistances :: "metrics \<Rightarrow> string \<Rightarrow> (string \<times> jsnum) list" where
  "severityDistances metrics maxVectorStr =
     List.map_filter
       (\<lambda>(metric, levels).
          let eff = effectiveValue metrics metric in
          case extractFromStr metric maxVectorStr of
            None \<Rightarrow> None
          | Some maxVal \<Rightarrow> Some (metric, nsub (level levels eff) (level levels maxVal)))
       METRIC_LEVELS"

section \<open>Core scoring function\<close>

definition impactMetrics :: "string list" where
  "impactMetrics = [''VC'', ''VI'', ''VA'', ''SC'', ''SI'', ''SA'']"

text \<open>The table read at the key rendered from six digits.\<close>

definition lookup6 :: "table \<Rightarrow> nat \<Rightarrow> nat \<Rightarrow> nat \<Rightarrow> nat \<Rightarrow> nat \<Rightarrow> nat \<Rightarrow> rat option" where
  "lookup6 tbl eq1 eq2 eq3 eq4 eq5 eq6 =
     lookup tbl (toString eq1 @ toString eq2 @ toString eq3 @ toString eq4 @ toString eq5 @ toString eq6)"

definition score_eq3eq6_next :: "table \<Rightarrow> nat \<Rightarrow> nat \<Rightarrow> nat \<Rightarrow> nat \<Rightarrow> nat \<Rightarrow> nat \<Rightarrow> rat option" where
  "score_eq3eq6_next tbl eq1 eq2 eq3 eq4 eq5 eq6 =
     (if eq3 = 1 \<and> eq6 = 1 then lookup6 tbl eq1 eq2 (eq3 + 1) eq4 eq5 eq6
      else if eq3 = 0 \<and> eq6 = 1 then lookup6 tbl eq1 eq2 (eq3 + 1) eq4 eq5 eq6
      else if eq3 = 1 \<and> eq6 = 0 then lookup6 tbl eq1 eq2 eq3 eq4 eq5 (eq6 + 1)
      else if eq3 = 0 \<and> eq6 = 0 then
        (let left = lookup6 tbl eq1 eq2 eq3 eq4 eq5 (eq6 + 1);
             right = lookup6 tbl eq1 eq2 (eq3 + 1) eq4 eq5 eq6
         in finiteOrUndefined (ext_max (orNegInfinity left) (orNegInfinity right)))
      else lookup6 tbl eq1 eq2 (eq3 + 1) eq4 eq5 (eq6 + 1))"

text \<open>\<open>for (const x of xs) ...\<close> collecting what the body pushes; iterating \<open>undefined\<close> throws.\<close>

fun for_each :: "'a list \<Rightarrow> ('a \<Rightarrow> error + 'b list) \<Rightarrow> error + 'b list" where
  "for_each [] body = Inr []"
| "for_each (x # xs) body =
     (case body x of
        Inl e \<Rightarrow> Inl e
      | Inr ys \<Rightarrow> (case for_each xs body of Inl e \<Rightarrow> Inl e | Inr zs \<Rightarrow> Inr (ys @ zs)))"

definition for_of :: "'a list option \<Rightarrow> ('a \<Rightarrow> error + 'b list) \<Rightarrow> error + 'b list" where
  "for_of xs body = (case xs of None \<Rightarrow> Inl TypeError | Some l \<Rightarrow> for_each l body)"

definition maxVectors :: "nat \<Rightarrow> nat \<Rightarrow> nat \<Rightarrow> nat \<Rightarrow> nat \<Rightarrow> nat \<Rightarrow> error + string list" where
  "maxVectors eq1 eq2 eq3 eq4 eq5 eq6 =
     (let eqMaxes0 = map_of MAX_COMPOSED_eq1 eq1;
          eqMaxes1 = map_of MAX_COMPOSED_eq2 eq2;
          eqMaxes2 = Some (case map_of MAX_COMPOSED_eq3 eq3 of
                             None \<Rightarrow> []
                           | Some t \<Rightarrow> (case map_of t eq6 of None \<Rightarrow> [] | Some l \<Rightarrow> l));
          eqMaxes3 = map_of MAX_COMPOSED_eq4 eq4;
          eqMaxes4 = map_of MAX_COMPOSED_eq5 eq5
      in for_of eqMaxes0 (\<lambda>a. for_of eqMaxes1 (\<lambda>b. for_of eqMaxes2 (\<lambda>c.
           for_of eqMaxes3 (\<lambda>d. for_of eqMaxes4 (\<lambda>e. Inr [a @ b @ c @ d @ e]))))))"

text \<open>The first max vector all of whose severity distances are \<open>>= 0\<close>.\<close>

fun firstDistances :: "metrics \<Rightarrow> string list \<Rightarrow> (string \<times> jsnum) list option" where
  "firstDistances metrics [] = None"
| "firstDistances metrics (mv # mvs) =
     (let d = severityDistances metrics mv in
      if list_all (\<lambda>(k, v). nge v 0) d then Some d else firstDistances metrics mvs)"

text \<open>\<open>distances.K ?? 0\<close>.\<close>

definition dist :: "(string \<times> jsnum) list \<Rightarrow> string \<Rightarrow> jsnum" where
  "dist distances k = (case map_of distances k of None \<Rightarrow> Num 0 | Some v \<Rightarrow> v)"

definition STEP :: rat where
  "STEP = 0.1"

text \<open>
  The interpolation, from the four sums of severity distances to the rounded score
  (the neighbour lookups, available distances, normalised severities and their mean).
\<close>

definition mean_score ::
  "table \<Rightarrow> rat \<Rightarrow> nat \<Rightarrow> nat \<Rightarrow> nat \<Rightarrow> nat \<Rightarrow> nat \<Rightarrow> nat \<Rightarrow> jsnum \<Rightarrow> jsnum \<Rightarrow> jsnum \<Rightarrow> jsnum \<Rightarrow> jsnum" where
  "mean_score tbl value eq1 eq2 eq3 eq4 eq5 eq6 d_eq1 d_eq2 d_eq3eq6 d_eq4 =
     (let score_eq1_next = lookup6 tbl (eq1 + 1) eq2 eq3 eq4 eq5 eq6;
          score_eq2_next = lookup6 tbl eq1 (eq2 + 1) eq3 eq4 eq5 eq6;
          score_eq4_next = lookup6 tbl eq1 eq2 eq3 (eq4 + 1) eq5 eq6;
          score_eq5_next = lookup6 tbl eq1 eq2 eq3 eq4 (eq5 + 1) eq6;
          score_eq3eq6_nxt = score_eq3eq6_next tbl eq1 eq2 eq3 eq4 eq5 eq6;
          avail_eq1 = nsub (Num value) (toNum score_eq1_next);
          avail_eq2 = nsub (Num value) (toNum score_eq2_next);
          avail_eq3eq6 = nsub (Num value) (toNum score_eq3eq6_nxt);
          avail_eq4 = nsub (Num value) (toNum score_eq4_next);
          avail_eq5 = nsub (Num value) (toNum score_eq5_next);
          maxSev_eq1 = nmul (toNum (map_of MAX_SEVERITY_eq1 eq1)) (Num STEP);
          maxSev_eq2 = nmul (toNum (map_of MAX_SEVERITY_eq2 eq2)) (Num STEP);
          maxSev_eq3eq6 = nmul (toNum (case map_of MAX_SEVERITY_eq3eq6 eq3 of
                                         None \<Rightarrow> None
                                       | Some t \<Rightarrow> map_of t eq6)) (Num STEP);
          maxSev_eq4 = nmul (toNum (map_of MAX_SEVERITY_eq4 eq4)) (Num STEP);
          c1 = \<not> isNaN avail_eq1;
          c2 = \<not> isNaN avail_eq2;
          c36 = (\<not> isNaN avail_eq3eq6 \<and> \<not> isNaN maxSev_eq3eq6 \<and> maxSev_eq3eq6 \<noteq> Num 0);
          c4 = \<not> isNaN avail_eq4;
          c5 = \<not> isNaN avail_eq5;
          n = (if c1 then 1 else 0) + (if c2 then 1 else 0) + (if c36 then 1 else 0)
              + (if c4 then 1 else 0) + (if c5 then (1::nat) else 0);
          norm_eq1 = (if c1 then nmul avail_eq1 (ndiv d_eq1 maxSev_eq1) else Num 0);
          norm_eq2 = (if c2 then nmul avail_eq2 (ndiv d_eq2 maxSev_eq2) else Num 0);
          norm_eq3eq6 = (if c36 then nmul avail_eq3eq6 (ndiv d_eq3eq6 maxSev_eq3eq6) else Num 0);
          norm_eq4 = (if c4 then nmul avail_eq4 (ndiv d_eq4 maxSev_eq4) else Num 0);
          norm_eq5 = Num 0;
          meanDistance =
            (if n = 0 then Num 0
             else ndiv (nadd (nadd (nadd (nadd norm_eq1 norm_eq2) norm_eq3eq6) norm_eq4) norm_eq5)
                       (Num (of_nat n)))
      in roundHalfUp (Math_max 0 (Math_min 10 (nsub (Num value) meanDistance))))"

text \<open>The current severity distances per EQ group, and the interpolation from them.\<close>

definition interpolate ::
  "table \<Rightarrow> rat \<Rightarrow> nat \<Rightarrow> nat \<Rightarrow> nat \<Rightarrow> nat \<Rightarrow> nat \<Rightarrow> nat \<Rightarrow> (string \<times> jsnum) list \<Rightarrow> jsnum" where
  "interpolate tbl value eq1 eq2 eq3 eq4 eq5 eq6 distances =
     (let d_eq1 = nadd (nadd (dist distances ''AV'') (dist distances ''PR'')) (dist distances ''UI'');
          d_eq2 = nadd (dist distances ''AC'') (dist distances ''AT'');
          d_eq3eq6 = nadd (nadd (nadd (nadd (nadd (dist distances ''VC'') (dist distances ''VI''))
                       (dist distances ''VA'')) (dist distances ''CR'')) (dist distances ''IR''))
                       (dist distances ''AR'');
          d_eq4 = nadd (nadd (dist distances ''SC'') (dist distances ''SI'')) (dist distances ''SA'')
      in mean_score tbl value eq1 eq2 eq3 eq4 eq5 eq6 d_eq1 d_eq2 d_eq3eq6 d_eq4)"

text \<open>
  \<open>calculateScore\<close>: \<open>Inr None\<close> is the result \<open>null\<close>.  The last case of the
  destructuring is not reached: \<open>macroVector\<close> returns six digits.
\<close>

definition calculateScoreWith :: "table \<Rightarrow> metrics \<Rightarrow> error + jsnum option" where
  "calculateScoreWith tbl metrics =
     (if list_all (\<lambda>m. effectiveValue metrics m = ''N'') impactMetrics then Inr (Some (Num 0.0))
      else
        let mv = macroVector metrics in
        case lookup tbl mv of
          None \<Rightarrow> Inr None
        | Some value \<Rightarrow>
            (case map Number mv of
               [eq1, eq2, eq3, eq4, eq5, eq6] \<Rightarrow>
                 (case maxVectors eq1 eq2 eq3 eq4 eq5 eq6 of
                    Inl e \<Rightarrow> Inl e
                  | Inr mvs \<Rightarrow>
                      (case firstDistances metrics mvs of
                         None \<Rightarrow> Inr (Some (Num value))
                       | Some distances \<Rightarrow>
                           Inr (Some (interpolate tbl value eq1 eq2 eq3 eq4 eq5 eq6 distances))))
             | _ \<Rightarrow> Inl TypeError))"

definition calculateScore :: "metrics \<Rightarrow> error + jsnum option" where
  "calculateScore = calculateScoreWith LOOKUP_TABLE"

section \<open>Public API\<close>

text \<open>\<open>scoreToSeverity\<close>: \<open>None\<close> as argument is \<open>null\<close> or \<open>undefined\<close>, as result \<open>null\<close>.\<close>

definition scoreToSeverity :: "jsnum option \<Rightarrow> string option" where
  "scoreToSeverity score =
     (case score of
        None \<Rightarrow> None
      | Some s \<Rightarrow>
          if isNaN s then None
          else if nge s 9.0 then Some ''CRITICAL''
          else if nge s 7.0 then Some ''HIGH''
          else if nge s 4.0 then Some ''MEDIUM''
          else if ngt s 0.0 then Some ''LOW''
          else Some ''INFO'')"

text \<open>A template string renders \<open>undefined\<close> as the word.\<close>

definition buildVector :: "metrics \<Rightarrow> string" where
  "buildVector metrics =
     (let parts = map (\<lambda>k. k @ '':'' @ js_or (metrics k)
                        (case map_of CVSS4_DEFAULTS k of Some d \<Rightarrow> d | None \<Rightarrow> ''undefined''))
                    BASE_METRIC_ORDER
      in ''CVSS:4.0/'' @ join ''/'' parts)"

record parse_result =
  p_metrics :: "metrics option"
  p_isValid :: bool
  p_error :: "string option"

text \<open>\<open>const [k, v] = part.split(':'); if (k && v) metrics[k] = v\<close>.\<close>

definition assign_part :: "metrics \<Rightarrow> string \<Rightarrow> metrics" where
  "assign_part metrics part =
     (case split (CHR '':'') part of
        k # v # _ \<Rightarrow> if k \<noteq> [] \<and> v \<noteq> [] then metrics(k \<mapsto> v) else metrics
      | _ \<Rightarrow> metrics)"

text \<open>The validation loop over the required base metrics; \<open>Some\<close> is the error message of the early return.\<close>

fun validate :: "metrics \<Rightarrow> string list \<Rightarrow> string option" where
  "validate metrics [] = None"
| "validate metrics (key # keys) =
     (if js_or (metrics key) [] = [] then Some (''Missing metric: '' @ key)
      else
        let validVals = (case map_of CVSS4_METRICS key of Some opts \<Rightarrow> opts | None \<Rightarrow> []) in
        if validVals \<noteq> [] \<and> js_or (metrics key) [] \<notin> set validVals
        then Some (''Invalid value for '' @ key @ '': '' @ js_or (metrics key) [])
        else validate metrics keys)"

definition parseVector :: "string \<Rightarrow> parse_result" where
  "parseVector vectorString =
     (if vectorString = [] then
        \<lparr>p_metrics = None, p_isValid = False, p_error = Some ''Empty vector''\<rparr>
      else
        let trimmed = trim vectorString in
        if \<not> startsWith trimmed ''CVSS:4.0/'' then
          \<lparr>p_metrics = None, p_isValid = False, p_error = Some ''Must start with CVSS:4.0/''\<rparr>
        else
          let parts = split (CHR ''/'') (replace_first ''CVSS:4.0/'' trimmed);
              metrics = foldl assign_part Map.empty parts
          in case validate metrics BASE_METRIC_ORDER of
               Some err \<Rightarrow> \<lparr>p_metrics = Some metrics, p_isValid = False, p_error = Some err\<rparr>
             | None \<Rightarrow> \<lparr>p_metrics = Some metrics, p_isValid = True, p_error = None\<rparr>)"

record vector_score =
  v_score :: "jsnum option"
  v_severity :: "string option"
  v_isValid :: bool
  v_error :: "string option"

definition vectorToScore :: "string \<Rightarrow> error + vector_score" where
  "vectorToScore vectorString =
     (let r = parseVector vectorString in
      case (if p_isValid r then p_metrics r else None) of
        None \<Rightarrow> Inr \<lparr>v_score = None, v_severity = None, v_isValid = False, v_error = p_error r\<rparr>
      | Some metrics \<Rightarrow>
          (case calculateScore metrics of
             Inl e \<Rightarrow> Inl e
           | Inr None \<Rightarrow>
               Inr \<lparr>v_score = None, v_severity = None, v_isValid = False,
                    v_error = Some ''Could not calculate score''\<rparr>
           | Inr (Some score) \<Rightarrow>
               Inr \<lparr>v_score = Some score, v_severity = scoreToSeverity (Some score),
                    v_isValid = True, v_error = None\<rparr>))"

record metrics_score =
  m_score :: "jsnum option"
  m_severity :: "string option"
  m_vector :: string

definition metricsToScore :: "metrics \<Rightarrow> error + metrics_score" where
  "metricsToScore metrics =
     (let vector = buildVector metrics in
      case calculateScore metrics of
        Inl e \<Rightarrow> Inl e
      | Inr score \<Rightarrow> Inr \<lparr>m_score = score, m_severity = scoreToSeverity score, m_vector = vector\<rparr>)"

section \<open>Auxiliary notions for the proofs\<close>

text \<open>The six digits of the MacroVector, each as \<open>macroVector\<close> computes it.\<close>

definition EQ1 :: "metrics \<Rightarrow> nat" where
  "EQ1 m =
     (let AV = effectiveValue m ''AV''; PR = effectiveValue m ''PR''; UI = effectiveValue m ''UI'' in
      if AV = ''N'' \<and> PR = ''N'' \<and> UI = ''N'' then 0
      else if (AV = ''N'' \<or> PR = ''N'' \<or> UI = ''N'')
              \<and> \<not> (AV = ''N'' \<and> PR = ''N'' \<and> UI = ''N'') \<and> AV \<noteq> ''P'' then 1
      else 2)"

definition EQ2 :: "metrics \<Rightarrow> nat" where
  "EQ2 m = (if effectiveValue m ''AC'' = ''L'' \<and> effectiveValue m ''AT'' = ''N'' then 0 else 1)"

definition EQ3 :: "metrics \<Rightarrow> nat" where
  "EQ3 m =
     (let VC = effectiveValue m ''VC''; VI = effectiveValue m ''VI''; VA = effectiveValue m ''VA'' in
      if VC = ''H'' \<and> VI = ''H'' then 0
      else if VC = ''H'' \<or> VI = ''H'' \<or> VA = ''H'' then 1
      else 2)"

definition EQ4 :: "metrics \<Rightarrow> nat" where
  "EQ4 m =
     (let SC = effectiveValue m ''SC''; SI = effectiveValue m ''SI''; SA = effectiveValue m ''SA'' in
      if js_or (m ''MSI'') ''X'' = ''S'' \<or> js_or (m ''MSA'') ''X'' = ''S'' then 0
      else if SC = ''H'' \<or> SI = ''H'' \<or> SA = ''H'' then 1
      else 2)"

definition EQ5 :: "metrics \<Rightarrow> nat" where
  "EQ5 m =
     (let E = effectiveValue m ''E'' in
      if E = ''A'' then 0 else if E = ''P'' then 1 else 2)"

definition EQ6 :: "metrics \<Rightarrow> nat" where
  "EQ6 m =
     (if (effectiveValue m ''CR'' = ''H'' \<and> effectiveValue m ''VC'' = ''H'')
         \<or> (effectiveValue m ''IR'' = ''H'' \<and> effectiveValue m ''VI'' = ''H'')
         \<or> (effectiveValue m ''AR'' = ''H'' \<and> effectiveValue m ''VA'' = ''H'')
      then 0 else 1)"

text \<open>A linear check that a list of numbers is strictly ascending.\<close>

fun ascending :: "nat list \<Rightarrow> bool" where
  "ascending (x # y # zs) = (x < y \<and> ascending (y # zs))"
| "ascending _ = True"

text \<open>A table key read as a decimal number.\<close>

definition keynum :: "string \<Rightarrow> nat" where
  "keynum k = foldl (\<lambda>a c. 10 * a + Number c) 0 k"

text \<open>
  The metrics object that \<open>parseVector\<close> builds from the tokens of a string that has the
  prefix (lines "metrics = {}" to the end of the token loop of the source).
\<close>

definition parsed_metrics :: "string \<Rightarrow> metrics" where
  "parsed_metrics s =
     foldl assign_part Map.empty (split (CHR ''/'') (replace_first ''CVSS:4.0/'' (trim s)))"






text \<open>A value of the declared enumeration of a base metric (the option values of \<open>CVSS4_METRICS\<close>).\<close>

definition enumerated :: "string \<Rightarrow> string \<Rightarrow> bool" where
  "enumerated k v = (case map_of CVSS4_METRICS k of None \<Rightarrow> False | Some vals \<Rightarrow> v \<in> set vals)"

text \<open>The metrics object has, for the key, a value of the key's enumeration.\<close>

definition has_valid :: "metrics \<Rightarrow> string \<Rightarrow> bool" where
  "has_valid m k =
     (case m k of
        None \<Rightarrow> False
      | Some v \<Rightarrow> (case map_of CVSS4_METRICS k of None \<Rightarrow> False | Some vals \<Rightarrow> v \<in> set vals))"

text \<open>The value \<open>buildVector\<close> writes for a key: \<open>metrics[k] || CVSS4_DEFAULTS[k]\<close>.\<close>

definition base_value :: "metrics \<Rightarrow> string \<Rightarrow> string" where
  "base_value m k =
     js_or (m k) (case map_of CVSS4_DEFAULTS k of Some d \<Rightarrow> d | None \<Rightarrow> ''undefined'')"

text \<open>The metrics object with exactly the eleven base metrics, as \<open>buildVector\<close> writes them.\<close>

definition completed :: "metrics \<Rightarrow> metrics" where
  "completed m = (\<lambda>k. if k \<in> set BASE_METRIC_ORDER then Some (base_value m k) else None)"

text \<open>A nonempty string without separators and white space.\<close>

definition plain :: "string \<Rightarrow> bool" where
  "plain v = (v \<noteq> [] \<and> (\<forall>c\<in>set v. c \<noteq> CHR ''/'' \<and> c \<noteq> CHR '':'' \<and> \<not> isWhiteSpace c))"

text \<open>Vector strings used as concrete inputs.\<close>

definition padded_vector :: string where
  "padded_vector = '' CVSS:4.0/AV:N/AC:L/AT:N/PR:N/UI:N/VC:H/VI:H/VA:H/SC:N/SI:N/SA:N''"

definition wrong_version :: string where
  "wrong_version = ''CVSS:3.1/AV:N/AC:L/AT:N/PR:N/UI:N/VC:H/VI:H/VA:H/SC:N/SI:N/SA:N''"

definition missing_av :: string where
  "missing_av = ''CVSS:4.0/AC:L/AT:N/PR:N/UI:N/VC:H/VI:H/VA:H/SC:N/SI:N/SA:N''"

definition invalid_ac :: string where
  "invalid_ac = ''CVSS:4.0/AV:N/AC:Z/AT:N/PR:N/UI:N/VC:H/VI:H/VA:H/SC:N/SI:N/SA:N''"

definition extra_tokens :: string where
  "extra_tokens = ''CVSS:4.0/AV:N/AC:L/AT:N/PR:N/UI:N/VC:H/VI:H/VA:H/SC:N/SI:N/SA:N/E:Z/FOO:BAR''"


definition all_high_vector :: string where
  "all_high_vector = ''CVSS:4.0/AV:N/AC:L/AT:N/PR:N/UI:N/VC:H/VI:H/VA:H/SC:H/SI:H/SA:H''"

text \<open>Metrics objects used as concrete inputs.\<close>

definition physical_no_impact :: metrics where
  "physical_no_impact =
     [''AV'' \<mapsto> ''P'', ''AC'' \<mapsto> ''H'', ''AT'' \<mapsto> ''P'', ''PR'' \<mapsto> ''H'', ''UI'' \<mapsto> ''A'']"

definition low_confidentiality :: metrics where
  "low_confidentiality = [''VC'' \<mapsto> ''L'']"

definition all_high :: metrics where
  "all_high =
     [''AV'' \<mapsto> ''N'', ''AC'' \<mapsto> ''L'', ''AT'' \<mapsto> ''N'', ''PR'' \<mapsto> ''N'', ''UI'' \<mapsto> ''N'',
      ''VC'' \<mapsto> ''H'', ''VI'' \<mapsto> ''H'', ''VA'' \<mapsto> ''H'', ''SC'' \<mapsto> ''H'', ''SI'' \<mapsto> ''H'',
      ''SA'' \<mapsto> ''H'']"

definition unreported_exploit :: metrics where
  "unreported_exploit = all_high(''E'' \<mapsto> ''U'')"

definition invalid_attack_vector :: metrics where
  "invalid_attack_vector = [''AV'' \<mapsto> ''Z'', ''VC'' \<mapsto> ''H'']"

section \<open>Basic facts\<close>

lemma toString_small: "n < 10 \<Longrightarrow> toString n = [''0123456789'' ! n]"
  by (simp add: toString.simps)

lemma toString_digits [simp]:
  "toString 0 = ''0''" "toString (Suc 0) = ''1''" "toString 1 = ''1''"
  "toString 2 = ''2''" "toString 3 = ''3''"
  by (simp_all add: toString_small)

lemma Number_digits [simp]:
  "Number (CHR ''0'') = 0" "Number (CHR ''1'') = 1" "Number (CHR ''2'') = 2" "Number (CHR ''3'') = 3"
  by (simp_all add: Number_def)

lemma scoreToSeverity_Num:
  "scoreToSeverity (Some (Num s)) =
     (if s \<ge> 9 then Some ''CRITICAL'' else if s \<ge> 7 then Some ''HIGH''
      else if s \<ge> 4 then Some ''MEDIUM'' else if s > 0 then Some ''LOW'' else Some ''INFO'')"
  by (simp add: scoreToSeverity_def)

lemma effectiveValue_absent:
  "m (''M'' @ k) = None \<Longrightarrow> m k = None \<Longrightarrow>
   effectiveValue m k =
     (case map_of worstCase k of Some w \<Rightarrow> w | None \<Rightarrow> js_or (map_of CVSS4_DEFAULTS k) ''N'')"
  by (simp add: effectiveValue_def)

lemma effectiveValue_base:
  "m (''M'' @ k) = None \<Longrightarrow> m k = Some v \<Longrightarrow> v \<noteq> ''X'' \<Longrightarrow> effectiveValue m k = v"
  by (simp add: effectiveValue_def)

subsection \<open>The MacroVector and its digits\<close>

lemma macroVector_digits:
  "macroVector m = toString (EQ1 m) @ toString (EQ2 m) @ toString (EQ3 m)
                   @ toString (EQ4 m) @ toString (EQ5 m) @ toString (EQ6 m)"
  by (simp only: macroVector_def EQ1_def EQ2_def EQ3_def EQ4_def EQ5_def EQ6_def Let_def)

lemma EQ_ranges:
  "EQ1 m \<le> 2" "EQ2 m \<le> 1" "EQ3 m \<le> 2" "EQ4 m \<le> 2" "EQ5 m \<le> 2" "EQ6 m \<le> 1"
  by (simp_all add: EQ1_def EQ2_def EQ3_def EQ4_def EQ5_def EQ6_def Let_def)

lemma EQ3_EQ6: "\<not> (EQ3 m = 2 \<and> EQ6 m = 0)"
  by (simp add: EQ3_def EQ6_def Let_def)

lemma toString_le2:
  "n \<le> 2 \<Longrightarrow> toString n = (if n = 0 then ''0'' else if n = 1 then ''1'' else ''2'')"
  by (cases "n = 0"; cases "n = 1"; cases "n = 2") auto

lemma Number_toString: "n \<le> 2 \<Longrightarrow> map Number (toString n) = [n]"
  by (auto simp: toString_le2)

lemma macroVector_Number:
  "map Number (macroVector m) = [EQ1 m, EQ2 m, EQ3 m, EQ4 m, EQ5 m, EQ6 m]"
proof -
  have "EQ2 m \<le> 2" "EQ6 m \<le> 2"
    using EQ_ranges(2,6) [of m] by simp_all
  then show ?thesis
    by (simp add: macroVector_digits Number_toString EQ_ranges)
qed

subsection \<open>The keys of the lookup table\<close>

lemma keys_eq:
  "map fst LOOKUP_TABLE =
     [toString a @ toString b @ toString c @ toString d @ toString e @ toString f.
        a \<leftarrow> [0, 1, 2], b \<leftarrow> [0, 1], c \<leftarrow> [0, 1, 2], d \<leftarrow> [0, 1, 2], e \<leftarrow> [0, 1, 2],
        f \<leftarrow> [0, 1], \<not> (c = 2 \<and> f = 0)]"
  by (simp add: LOOKUP_TABLE_def)

lemma in_compr6:
  "a \<in> set A \<Longrightarrow> b \<in> set B \<Longrightarrow> c \<in> set C \<Longrightarrow> d \<in> set D \<Longrightarrow> e \<in> set E \<Longrightarrow> f \<in> set F
   \<Longrightarrow> P c f
   \<Longrightarrow> g a b c d e f \<in> set [g a b c d e f. a \<leftarrow> A, b \<leftarrow> B, c \<leftarrow> C, d \<leftarrow> D, e \<leftarrow> E, f \<leftarrow> F, P c f]"
  by simp blast

lemma in_keys:
  assumes "a \<le> 2" "b \<le> 1" "c \<le> 2" "d \<le> 2" "e \<le> 2" "f \<le> 1" "\<not> (c = 2 \<and> f = 0)"
  shows "toString a @ toString b @ toString c @ toString d @ toString e @ toString f
           \<in> set (map fst LOOKUP_TABLE)"
proof -
  have "a \<in> set [0, 1, 2]" "b \<in> set [0, 1]" "c \<in> set [0, 1, 2]" "d \<in> set [0, 1, 2]"
       "e \<in> set [0, 1, 2]" "f \<in> set [0, 1]"
    using assms by auto
  then show ?thesis
    unfolding keys_eq using assms(7)
    by (rule in_compr6 [where g = "\<lambda>a b c d e f. toString a @ toString b @ toString c
                                      @ toString d @ toString e @ toString f"
                          and P = "\<lambda>c f. \<not> (c = 2 \<and> f = 0)"])
qed

lemma lookup6_Some:
  assumes "a \<le> 2" "b \<le> 1" "c \<le> 2" "d \<le> 2" "e \<le> 2" "f \<le> 1" "\<not> (c = 2 \<and> f = 0)"
  shows "\<exists>v. lookup6 LOOKUP_TABLE a b c d e f = Some v"
proof -
  have "toString a @ toString b @ toString c @ toString d @ toString e @ toString f
          \<in> fst ` set LOOKUP_TABLE"
    using in_keys [OF assms] by simp
  then show ?thesis
    unfolding lookup6_def lookup_def by (metis map_of_eq_None_iff not_Some_eq)
qed

lemma lookup_macroVector: "\<exists>v. lookup LOOKUP_TABLE (macroVector m) = Some v"
  using lookup6_Some [OF EQ_ranges EQ3_EQ6]
  by (simp add: lookup6_def macroVector_digits)

lemma ascending_sorted: "ascending xs \<Longrightarrow> sorted_wrt (<) xs"
proof (induction xs rule: ascending.induct)
  case (1 x y zs)
  then have "sorted_wrt (<) (y # zs)" "x < y"
    by simp_all
  then show ?case
    by fastforce
qed simp_all

lemma keys_distinct: "distinct (map fst LOOKUP_TABLE)"
proof -
  have "ascending (map keynum (map fst LOOKUP_TABLE))"
    by (simp add: LOOKUP_TABLE_def keynum_def)
  then have "distinct (map keynum (map fst LOOKUP_TABLE))"
    using ascending_sorted strict_sorted_iff by blast
  then show ?thesis
    by (simp only: distinct_map)
qed

lemma table_length: "length LOOKUP_TABLE = 270"
  by (simp add: LOOKUP_TABLE_def)

lemma table_card: "card (dom (lookup LOOKUP_TABLE)) = 270"
proof -
  have "dom (lookup LOOKUP_TABLE) = set (map fst LOOKUP_TABLE)"
    unfolding lookup_def by (simp only: dom_map_of_conv_image_fst set_map)
  then show ?thesis
    using distinct_card [OF keys_distinct] table_length by simp
qed

lemma table_values:
  "list_all (\<lambda>(k, v). 0 \<le> v \<and> v \<le> 10 \<and> of_int \<lfloor>v * 10\<rfloor> = v * 10) LOOKUP_TABLE"
  by (simp add: LOOKUP_TABLE_def)

subsection \<open>The max vectors exist for every digit combination\<close>

lemma for_each_Inr:
  "(\<And>x. x \<in> set xs \<Longrightarrow> body x = Inr (f x)) \<Longrightarrow> for_each xs body = Inr (concat (map f xs))"
  by (induction xs) auto

lemma maxVectors_Inr:
  assumes "map_of MAX_COMPOSED_eq1 eq1 = Some A" "map_of MAX_COMPOSED_eq2 eq2 = Some B"
    "map_of MAX_COMPOSED_eq4 eq4 = Some D" "map_of MAX_COMPOSED_eq5 eq5 = Some E"
  shows "maxVectors eq1 eq2 eq3 eq4 eq5 eq6 =
           Inr [a @ b @ c @ d @ e.
                  a \<leftarrow> A, b \<leftarrow> B,
                  c \<leftarrow> (case map_of MAX_COMPOSED_eq3 eq3 of
                          None \<Rightarrow> []
                        | Some t \<Rightarrow> (case map_of t eq6 of None \<Rightarrow> [] | Some l \<Rightarrow> l)),
                  d \<leftarrow> D, e \<leftarrow> E]"
  unfolding maxVectors_def Let_def for_of_def assms option.case
  by (simp add: for_each_Inr)

lemma MAX_COMPOSED_defined:
  "n \<le> 2 \<Longrightarrow> \<exists>A. map_of MAX_COMPOSED_eq1 n = Some A"
  "n \<le> 1 \<Longrightarrow> \<exists>A. map_of MAX_COMPOSED_eq2 n = Some A"
  "n \<le> 2 \<Longrightarrow> \<exists>A. map_of MAX_COMPOSED_eq4 n = Some A"
  "n \<le> 2 \<Longrightarrow> \<exists>A. map_of MAX_COMPOSED_eq5 n = Some A"
  by (cases "n = 0"; cases "n = 1"; cases "n = 2";
      simp add: MAX_COMPOSED_eq1_def MAX_COMPOSED_eq2_def MAX_COMPOSED_eq4_def MAX_COMPOSED_eq5_def)+

lemma maxVectors_total: "\<exists>mvs. maxVectors (EQ1 m) (EQ2 m) (EQ3 m) (EQ4 m) (EQ5 m) (EQ6 m) = Inr mvs"
proof -
  obtain A B D E where
    "map_of MAX_COMPOSED_eq1 (EQ1 m) = Some A" "map_of MAX_COMPOSED_eq2 (EQ2 m) = Some B"
    "map_of MAX_COMPOSED_eq4 (EQ4 m) = Some D" "map_of MAX_COMPOSED_eq5 (EQ5 m) = Some E"
    using MAX_COMPOSED_defined EQ_ranges by metis
  then show ?thesis
    using maxVectors_Inr by blast
qed

lemma calculateScore_total: "\<exists>s. calculateScore m = Inr (Some s)"
proof -
  obtain v where v: "lookup LOOKUP_TABLE (macroVector m) = Some v"
    using lookup_macroVector by blast
  obtain mvs where mvs: "maxVectors (EQ1 m) (EQ2 m) (EQ3 m) (EQ4 m) (EQ5 m) (EQ6 m) = Inr mvs"
    using maxVectors_total by blast
  show ?thesis
    by (simp add: calculateScore_def calculateScoreWith_def v macroVector_Number mvs
             split: option.split)
qed

section \<open>Verified claims\<close>

subsection \<open>Zero impact\<close>

text \<open>
  Claim C3.  If all six impact metrics VC, VI, VA, SC, SI, SA resolve to the effective
  value \<open>N\<close>, the score is exactly 0 and the severity label is INFO, whatever the
  exploitability metrics are.  The result does not depend on the lookup table: it is the
  same for every table \<open>tbl\<close>, in particular for the program's \<open>LOOKUP_TABLE\<close>.
\<close>

theorem C3_zero_impact:
  assumes "effectiveValue m ''VC'' = ''N''" and "effectiveValue m ''VI'' = ''N''"
    and "effectiveValue m ''VA'' = ''N''" and "effectiveValue m ''SC'' = ''N''"
    and "effectiveValue m ''SI'' = ''N''" and "effectiveValue m ''SA'' = ''N''"
  shows "calculateScoreWith tbl m = Inr (Some (Num 0))
       \<and> calculateScore m = Inr (Some (Num 0))
       \<and> metricsToScore m =
           Inr \<lparr>m_score = Some (Num 0), m_severity = Some ''INFO'', m_vector = buildVector m\<rparr>"
proof -
  have z: "calculateScoreWith t m = Inr (Some (Num 0))" for t
    using assms by (simp add: calculateScoreWith_def impactMetrics_def)
  then have "calculateScore m = Inr (Some (Num 0))"
    by (simp add: calculateScore_def)
  then show ?thesis
    using z by (simp add: metricsToScore_def scoreToSeverity_Num)
qed

lemma physical_no_impact_effective:
  "effectiveValue physical_no_impact ''VC'' = ''N''" "effectiveValue physical_no_impact ''VI'' = ''N''"
  "effectiveValue physical_no_impact ''VA'' = ''N''" "effectiveValue physical_no_impact ''SC'' = ''N''"
  "effectiveValue physical_no_impact ''SI'' = ''N''" "effectiveValue physical_no_impact ''SA'' = ''N''"
  by (simp_all add: effectiveValue_def physical_no_impact_def worstCase_def CVSS4_DEFAULTS_def
                    js_or_def)

theorem C3_zero_impact_witness:
  "effectiveValue physical_no_impact ''VC'' = ''N'' \<and> effectiveValue physical_no_impact ''VI'' = ''N''
   \<and> effectiveValue physical_no_impact ''VA'' = ''N'' \<and> effectiveValue physical_no_impact ''SC'' = ''N''
   \<and> effectiveValue physical_no_impact ''SI'' = ''N'' \<and> effectiveValue physical_no_impact ''SA'' = ''N''
   \<and> calculateScoreWith [] physical_no_impact = Inr (Some (Num 0))
   \<and> calculateScore physical_no_impact = Inr (Some (Num 0))
   \<and> metricsToScore physical_no_impact =
       Inr \<lparr>m_score = Some (Num 0), m_severity = Some ''INFO'',
            m_vector = buildVector physical_no_impact\<rparr>"
  using C3_zero_impact [OF physical_no_impact_effective, of "[]"] physical_no_impact_effective
  by simp

subsection \<open>The lookup table\<close>

text \<open>
  Claim C4: the lookup table has exactly 246 keys, the figure that the heading comment of the
  table in the source gives too (\<open>246 MacroVectors\<close>).  The table written under that
  comment has 270 entries with pairwise distinct keys, so it has 270 keys and not 246.
\<close>

theorem C4_table_size:
  "length LOOKUP_TABLE = 270 \<and> distinct (map fst LOOKUP_TABLE)
   \<and> card (dom (lookup LOOKUP_TABLE)) = 270 \<and> card (dom (lookup LOOKUP_TABLE)) \<noteq> 246"
  by (simp add: table_card table_length keys_distinct)

text \<open>The values of the table lie in \<open>[0, 10]\<close> and are multiples of \<open>0.1\<close>.\<close>

lemma table_value_range:
  "lookup LOOKUP_TABLE k = Some v \<Longrightarrow> 0 \<le> v \<and> v \<le> 10 \<and> (\<exists>n::int. v = of_int n * 0.1)"
proof -
  assume l: "lookup LOOKUP_TABLE k = Some v"
  have "(k, v) \<in> set LOOKUP_TABLE"
    using l by (simp add: lookup_def map_of_SomeD)
  then have *: "0 \<le> v \<and> v \<le> 10 \<and> of_int \<lfloor>v * 10\<rfloor> = v * 10"
    using table_values by (auto simp: list_all_iff)
  from * have e: "of_int \<lfloor>v * 10\<rfloor> = v * 10"
    by blast
  have "v = (v * 10) * 0.1"
    by simp
  then have "v = of_int \<lfloor>v * 10\<rfloor> * 0.1"
    by (simp only: e)
  then show ?thesis
    using * by blast
qed

text \<open>
  Claim C10.  For every metrics object the MacroVector produced by the classifier is a key
  of the lookup table: a third digit 2 (EQ3) forces the sixth digit 1 (EQ6), and every
  combination the classifier produces is present.  So \<open>calculateScore\<close> never returns
  \<open>null\<close>; it always returns a number.
\<close>

theorem C10_macroVector_in_table:
  "lookup LOOKUP_TABLE (macroVector m) \<noteq> None
   \<and> (macroVector m ! 2 = CHR ''2'' \<longrightarrow> macroVector m ! 5 = CHR ''1'')
   \<and> calculateScore m \<noteq> Inr None
   \<and> (\<exists>s. calculateScore m = Inr (Some s))"
proof -
  have "macroVector m ! 2 = ''0123456789'' ! EQ3 m" "macroVector m ! 5 = ''0123456789'' ! EQ6 m"
    using EQ_ranges [of m] by (simp_all add: macroVector_digits toString_small)
  moreover have "EQ3 m = 0 \<or> EQ3 m = 1 \<or> EQ3 m = 2" "EQ6 m = 0 \<or> EQ6 m = 1"
    using EQ_ranges(3,6) [of m] by auto
  ultimately have "macroVector m ! 2 = CHR ''2'' \<longrightarrow> macroVector m ! 5 = CHR ''1''"
    using EQ3_EQ6 [of m] by auto
  then show ?thesis
    using lookup_macroVector [of m] calculateScore_total [of m] by auto
qed

theorem C10_macroVector_in_table_witness:
  "macroVector low_confidentiality ! 2 = CHR ''2'' \<and> macroVector low_confidentiality ! 5 = CHR ''1''"
proof -
  have "macroVector low_confidentiality = ''002201''"
    by (simp add: macroVector_def effectiveValue_def low_confidentiality_def worstCase_def
                  CVSS4_DEFAULTS_def js_or_def)
  then have "macroVector low_confidentiality ! 2 = CHR ''2''"
    by simp
  then show ?thesis
    using C10_macroVector_in_table [of low_confidentiality] by blast
qed

subsection \<open>The coupled EQ3/EQ6 neighbour\<close>

lemma ext_max_cases:
  "finiteOrUndefined (ext_max (orNegInfinity l) (orNegInfinity r)) =
     (case (l, r) of
        (None, None) \<Rightarrow> None
      | (Some a, None) \<Rightarrow> Some a
      | (None, Some b) \<Rightarrow> Some b
      | (Some a, Some b) \<Rightarrow> Some (max a b))"
  by (simp add: orNegInfinity_def split: option.splits)

text \<open>
  Claim C7.  The EQ3/EQ6 neighbour of the interpolation step: for digits (0, 0) it is the
  maximum of the two single-step candidates (EQ6 + 1 and EQ3 + 1) over those present in the
  table, and absent if neither is; for (0, 1) and (1, 1) only EQ3 is stepped; for (1, 0)
  only EQ6 is stepped; otherwise both digits are stepped.  This holds for every table.
\<close>

theorem C7_eq3eq6_neighbor:
  "(eq3 = 0 \<and> eq6 = 0 \<longrightarrow>
      score_eq3eq6_next tbl eq1 eq2 eq3 eq4 eq5 eq6 =
        (case (lookup6 tbl eq1 eq2 0 eq4 eq5 1, lookup6 tbl eq1 eq2 1 eq4 eq5 0) of
           (None, None) \<Rightarrow> None
         | (Some a, None) \<Rightarrow> Some a
         | (None, Some b) \<Rightarrow> Some b
         | (Some a, Some b) \<Rightarrow> Some (max a b)))
   \<and> ((eq3 = 0 \<or> eq3 = 1) \<and> eq6 = 1 \<longrightarrow>
      score_eq3eq6_next tbl eq1 eq2 eq3 eq4 eq5 eq6 = lookup6 tbl eq1 eq2 (eq3 + 1) eq4 eq5 eq6)
   \<and> (eq3 = 1 \<and> eq6 = 0 \<longrightarrow>
      score_eq3eq6_next tbl eq1 eq2 eq3 eq4 eq5 eq6 = lookup6 tbl eq1 eq2 eq3 eq4 eq5 (eq6 + 1))
   \<and> (\<not> (eq3 \<le> 1 \<and> eq6 \<le> 1) \<longrightarrow>
      score_eq3eq6_next tbl eq1 eq2 eq3 eq4 eq5 eq6 = lookup6 tbl eq1 eq2 (eq3 + 1) eq4 eq5 (eq6 + 1))"
  by (auto simp: score_eq3eq6_next_def ext_max_cases Let_def)

lemma lookup6_samples:
  "lookup6 LOOKUP_TABLE 0 0 0 2 0 (Suc 0) = Some 9"
  "lookup6 LOOKUP_TABLE 0 0 (Suc 0) 2 0 0 = Some 8.8"
  "lookup6 LOOKUP_TABLE 0 0 (Suc 0) 2 0 (Suc 0) = Some 8"
  "lookup6 LOOKUP_TABLE 0 0 3 2 0 (Suc (Suc 0)) = None"
  by (simp_all add: lookup6_def lookup_def LOOKUP_TABLE_def numeral_2_eq_2 [symmetric])

theorem C7_eq3eq6_neighbor_witness:
  "score_eq3eq6_next LOOKUP_TABLE 0 0 0 2 0 0 = Some 9
   \<and> score_eq3eq6_next LOOKUP_TABLE 0 0 0 2 0 1 = Some 8
   \<and> score_eq3eq6_next LOOKUP_TABLE 0 0 1 2 0 0 = Some 8
   \<and> score_eq3eq6_next LOOKUP_TABLE 0 0 2 2 0 1 = None"
  using C7_eq3eq6_neighbor [where tbl = LOOKUP_TABLE and ?eq1.0 = 0 and ?eq2.0 = 0 and ?eq3.0 = 0
                              and ?eq4.0 = 2 and ?eq5.0 = 0 and ?eq6.0 = 0]
        C7_eq3eq6_neighbor [where tbl = LOOKUP_TABLE and ?eq1.0 = 0 and ?eq2.0 = 0 and ?eq3.0 = 0
                              and ?eq4.0 = 2 and ?eq5.0 = 0 and ?eq6.0 = 1]
        C7_eq3eq6_neighbor [where tbl = LOOKUP_TABLE and ?eq1.0 = 0 and ?eq2.0 = 0 and ?eq3.0 = 1
                              and ?eq4.0 = 2 and ?eq5.0 = 0 and ?eq6.0 = 0]
        C7_eq3eq6_neighbor [where tbl = LOOKUP_TABLE and ?eq1.0 = 0 and ?eq2.0 = 0 and ?eq3.0 = 2
                              and ?eq4.0 = 2 and ?eq5.0 = 0 and ?eq6.0 = 1]
  by (simp add: lookup6_samples)

subsection \<open>Severity labels\<close>

text \<open>
  Claim C9.  \<open>scoreToSeverity\<close> returns no label for \<open>null\<close> and for \<open>NaN\<close>; a score
  \<open>s\<close> is CRITICAL when \<open>s \<ge> 9\<close>, HIGH when \<open>7 \<le> s < 9\<close>, MEDIUM when
  \<open>4 \<le> s < 7\<close>, LOW when \<open>0 < s < 4\<close> and INFO when \<open>s = 0\<close>; the boundary scores
  9.0, 7.0, 4.0, 0.0 are CRITICAL, HIGH, MEDIUM, INFO.
\<close>

theorem C9_severity:
  "scoreToSeverity None = None \<and> scoreToSeverity (Some NaN) = None
   \<and> (s \<ge> 9 \<longrightarrow> scoreToSeverity (Some (Num s)) = Some ''CRITICAL'')
   \<and> (7 \<le> s \<and> s < 9 \<longrightarrow> scoreToSeverity (Some (Num s)) = Some ''HIGH'')
   \<and> (4 \<le> s \<and> s < 7 \<longrightarrow> scoreToSeverity (Some (Num s)) = Some ''MEDIUM'')
   \<and> (0 < s \<and> s < 4 \<longrightarrow> scoreToSeverity (Some (Num s)) = Some ''LOW'')
   \<and> (s = 0 \<longrightarrow> scoreToSeverity (Some (Num s)) = Some ''INFO'')
   \<and> scoreToSeverity (Some (Num 9.0)) = Some ''CRITICAL''
   \<and> scoreToSeverity (Some (Num 7.0)) = Some ''HIGH''
   \<and> scoreToSeverity (Some (Num 4.0)) = Some ''MEDIUM''
   \<and> scoreToSeverity (Some (Num 0.0)) = Some ''INFO''"
  by (simp add: scoreToSeverity_def)

theorem C9_severity_witness:
  "scoreToSeverity (Some (Num 9.3)) = Some ''CRITICAL''
   \<and> scoreToSeverity (Some (Num 8.9)) = Some ''HIGH''
   \<and> scoreToSeverity (Some (Num 6.9)) = Some ''MEDIUM''
   \<and> scoreToSeverity (Some (Num 0.1)) = Some ''LOW''
   \<and> scoreToSeverity (Some (Num 0)) = Some ''INFO''"
  using C9_severity [of "9.3"] C9_severity [of "8.9"] C9_severity [of "6.9"] C9_severity [of "0.1"]
        C9_severity [of 0]
  by simp

subsection \<open>Parsing\<close>

lemma replace_first_prefix:
  "startsWith t p \<Longrightarrow> p \<noteq> [] \<Longrightarrow> replace_first p t = drop (length p) t"
  by (cases t) (auto simp: startsWith_def)

lemma assign_part_nonempty:
  "(\<forall>k. m k \<noteq> Some []) \<Longrightarrow> (\<forall>k. assign_part m p k \<noteq> Some [])"
  by (auto simp: assign_part_def split: list.splits)

lemma foldl_assign_nonempty:
  "(\<forall>k. m k \<noteq> Some []) \<Longrightarrow> (\<forall>k. foldl assign_part m ps k \<noteq> Some [])"
proof (induction ps arbitrary: m)
  case Nil
  then show ?case by simp
next
  case (Cons p ps)
  show ?case
    using Cons.IH [OF assign_part_nonempty [OF Cons.prems]] by simp
qed

lemma base_enumerated:
  "k \<in> set BASE_METRIC_ORDER \<Longrightarrow> \<exists>vals. map_of CVSS4_METRICS k = Some vals \<and> vals \<noteq> []"
  by (auto simp: BASE_METRIC_ORDER_def CVSS4_METRICS_def)

lemma validate_step:
  assumes "\<forall>k. m k \<noteq> Some []" "map_of CVSS4_METRICS k = Some vals" "vals \<noteq> []"
  shows "validate m (k # ks) =
           (case m k of
              None \<Rightarrow> Some (''Missing metric: '' @ k)
            | Some v \<Rightarrow> if v \<in> set vals then validate m ks
                        else Some (''Invalid value for '' @ k @ '': '' @ v))"
  using assms by (auto simp: js_or_def Let_def split: option.splits)

lemma validate_prefix:
  assumes "\<forall>k. m k \<noteq> Some []" "set (pre @ ks) \<subseteq> set BASE_METRIC_ORDER"
    "\<forall>k\<in>set pre. has_valid m k"
  shows "validate m (pre @ ks) = validate m ks"
  using assms
proof (induction pre)
  case Nil
  then show ?case by simp
next
  case (Cons k pre)
  obtain vals where vals: "map_of CVSS4_METRICS k = Some vals" "vals \<noteq> []"
    using base_enumerated [of k] Cons.prems(2) by auto
  have "has_valid m k"
    using Cons.prems(3) by simp
  then obtain v where "m k = Some v" "v \<in> set vals"
    using vals by (auto simp: has_valid_def split: option.splits)
  then have "validate m ((k # pre) @ ks) = validate m (pre @ ks)"
    using validate_step [OF Cons.prems(1) vals] by simp
  then show ?case
    using Cons by simp
qed

subsection \<open>Splitting what was joined\<close>

lemma split_acc_plain: "sep \<notin> set p \<Longrightarrow> split_acc sep cur p = [rev cur @ p]"
  by (induction p arbitrary: cur) auto

lemma split_acc_append:
  "sep \<notin> set p \<Longrightarrow> split_acc sep cur (p @ sep # rest) = (rev cur @ p) # split_acc sep [] rest"
  by (induction p arbitrary: cur) auto

lemma split_join:
  "ps \<noteq> [] \<Longrightarrow> \<forall>p\<in>set ps. sep \<notin> set p \<Longrightarrow> split sep (join [sep] ps) = ps"
proof (induction "[sep]" ps rule: join.induct)
  case 1
  then show ?case by simp
next
  case (2 p)
  then show ?case by (simp add: split_def split_acc_plain)
next
  case (3 p q ps)
  then show ?case
    using split_acc_append [of sep p "[]" "join [sep] (q # ps)"] by (simp add: split_def)
qed

lemma assign_part_pair:
  assumes "k \<noteq> []" "v \<noteq> []" "CHR '':'' \<notin> set k" "CHR '':'' \<notin> set v"
  shows "assign_part m (k @ '':'' @ v) = m(k \<mapsto> v)"
proof -
  have "split (CHR '':'') (k @ '':'' @ v) = [k, v]"
    using split_acc_append [of "CHR '':''" k "[]" v] assms(3,4)
    by (simp add: split_def split_acc_plain)
  then show ?thesis
    using assms(1,2) by (simp add: assign_part_def)
qed

lemma foldl_assign_parts:
  assumes "\<forall>k\<in>set ks. k \<noteq> [] \<and> CHR '':'' \<notin> set k \<and> f k \<noteq> [] \<and> CHR '':'' \<notin> set (f k)"
  shows "foldl assign_part m (map (\<lambda>k. k @ '':'' @ f k) ks) =
           (\<lambda>x. if x \<in> set ks then Some (f x) else m x)"
  using assms
proof (induction ks arbitrary: m)
  case Nil
  then show ?case by simp
next
  case (Cons k ks)
  have "assign_part m (k @ '':'' @ f k) = m(k \<mapsto> f k)"
    using Cons.prems assign_part_pair [of k "f k" m] by simp
  then show ?case
    using Cons by (auto simp: fun_eq_iff)
qed

lemma trim_id:
  assumes "b \<noteq> []" "\<not> isWhiteSpace (hd b)" "\<not> isWhiteSpace (last b)"
  shows "trim b = b"
proof -
  have "dropWhile isWhiteSpace b = b"
    using assms(1,2) by (cases b) auto
  moreover have "dropWhile isWhiteSpace (rev b) = rev b"
    using assms(1,3) by (cases "rev b") (auto simp: last_rev [symmetric] hd_rev)
  ultimately show ?thesis
    by (simp add: trim_def)
qed

subsection \<open>Validation of the required base metrics\<close>

lemma parseVector_prefixed:
  assumes "s \<noteq> []" "startsWith (trim s) ''CVSS:4.0/''"
  shows "parseVector s =
     (case validate (parsed_metrics s) BASE_METRIC_ORDER of
        Some err \<Rightarrow> \<lparr>p_metrics = Some (parsed_metrics s), p_isValid = False, p_error = Some err\<rparr>
      | None \<Rightarrow> \<lparr>p_metrics = Some (parsed_metrics s), p_isValid = True, p_error = None\<rparr>)"
  unfolding parsed_metrics_def using assms by (simp add: parseVector_def Let_def)

lemma parsed_metrics_nonempty: "parsed_metrics s k \<noteq> Some []"
  using foldl_assign_nonempty [of Map.empty] by (simp add: parsed_metrics_def)

lemma validate_all_valid:
  assumes "\<forall>k. m k \<noteq> Some []" "\<forall>k\<in>set BASE_METRIC_ORDER. has_valid m k"
  shows "validate m BASE_METRIC_ORDER = None"
  using validate_prefix [of m BASE_METRIC_ORDER "[]"] assms by simp

lemma validate_first_bad:
  assumes "\<forall>k. m k \<noteq> Some []" "BASE_METRIC_ORDER = pre @ k # post" "\<forall>k'\<in>set pre. has_valid m k'"
    "\<not> has_valid m k"
  shows "validate m BASE_METRIC_ORDER =
           (case m k of
              None \<Rightarrow> Some (''Missing metric: '' @ k)
            | Some v \<Rightarrow> Some (''Invalid value for '' @ k @ '': '' @ v))"
proof -
  have k: "k \<in> set BASE_METRIC_ORDER"
    using assms(2) by (metis in_set_conv_decomp)
  then obtain vals where vals: "map_of CVSS4_METRICS k = Some vals" "vals \<noteq> []"
    using base_enumerated by blast
  have "validate m BASE_METRIC_ORDER = validate m (k # post)"
    using validate_prefix [of m pre "k # post"] assms(1,3) by (simp add: assms(2) [symmetric])
  also have "\<dots> = (case m k of
              None \<Rightarrow> Some (''Missing metric: '' @ k)
            | Some v \<Rightarrow> Some (''Invalid value for '' @ k @ '': '' @ v))"
    using validate_step [OF assms(1) vals, of post] assms(4) vals
    by (auto simp: has_valid_def split: option.splits)
  finally show ?thesis .
qed

lemma validate_None_valid:
  assumes "\<forall>k. m k \<noteq> Some []" "set ks \<subseteq> set BASE_METRIC_ORDER" "validate m ks = None"
  shows "\<forall>k\<in>set ks. has_valid m k"
  using assms
proof (induction ks)
  case Nil
  then show ?case by simp
next
  case (Cons k ks)
  obtain vals where vals: "map_of CVSS4_METRICS k = Some vals" "vals \<noteq> []"
    using base_enumerated [of k] Cons.prems(2) by auto
  have "has_valid m k \<and> validate m ks = None"
    using validate_step [OF Cons.prems(1) vals, of ks] Cons.prems(3) vals
    by (auto simp: has_valid_def split: option.splits if_splits)
  then show ?case
    using Cons by simp
qed

lemma has_valid_upd:
  "has_valid (m(k \<mapsto> v)) k' =
     (if k' = k then (case map_of CVSS4_METRICS k of None \<Rightarrow> False | Some vals \<Rightarrow> v \<in> set vals)
      else has_valid m k')"
  by (simp add: has_valid_def)

lemma has_valid_enumerated: "has_valid m k = (case m k of None \<Rightarrow> False | Some v \<Rightarrow> enumerated k v)"
  by (simp add: has_valid_def enumerated_def split: option.splits)

lemmas parse_eval_defs =
  parsed_metrics_def trim_def isWhiteSpace_def split_def assign_part_def startsWith_def

lemma padded_vector_parsed:
  "startsWith (trim padded_vector) ''CVSS:4.0/''"
  "parsed_metrics padded_vector =
     [''AV'' \<mapsto> ''N'', ''AC'' \<mapsto> ''L'', ''AT'' \<mapsto> ''N'', ''PR'' \<mapsto> ''N'', ''UI'' \<mapsto> ''N'',
      ''VC'' \<mapsto> ''H'', ''VI'' \<mapsto> ''H'', ''VA'' \<mapsto> ''H'', ''SC'' \<mapsto> ''N'', ''SI'' \<mapsto> ''N'',
      ''SA'' \<mapsto> ''N'']"
  by (simp_all add: padded_vector_def parse_eval_defs)

lemma witness_strings_parsed:
  "\<not> startsWith (trim wrong_version) ''CVSS:4.0/''"
  "startsWith (trim missing_av) ''CVSS:4.0/''"
  "startsWith (trim invalid_ac) ''CVSS:4.0/''"
  "startsWith (trim extra_tokens) ''CVSS:4.0/''"
  "parsed_metrics missing_av ''AV'' = None"
  "parsed_metrics invalid_ac =
     [''AV'' \<mapsto> ''N'', ''AC'' \<mapsto> ''Z'', ''AT'' \<mapsto> ''N'', ''PR'' \<mapsto> ''N'', ''UI'' \<mapsto> ''N'',
      ''VC'' \<mapsto> ''H'', ''VI'' \<mapsto> ''H'', ''VA'' \<mapsto> ''H'', ''SC'' \<mapsto> ''N'', ''SI'' \<mapsto> ''N'',
      ''SA'' \<mapsto> ''N'']"
  "parsed_metrics extra_tokens =
     [''AV'' \<mapsto> ''N'', ''AC'' \<mapsto> ''L'', ''AT'' \<mapsto> ''N'', ''PR'' \<mapsto> ''N'', ''UI'' \<mapsto> ''N'',
      ''VC'' \<mapsto> ''H'', ''VI'' \<mapsto> ''H'', ''VA'' \<mapsto> ''H'', ''SC'' \<mapsto> ''N'', ''SI'' \<mapsto> ''N'',
      ''SA'' \<mapsto> ''N'', ''E'' \<mapsto> ''Z'', ''FOO'' \<mapsto> ''BAR'']"
  by (simp_all add: wrong_version_def missing_av_def invalid_ac_def extra_tokens_def parse_eval_defs)


text \<open>
  Claim C8, as stated: every input that does not start with the prefix \<open>CVSS:4.0/\<close>
  fails.  The input is trimmed first, so a vector after a blank does not start with the
  prefix and is reported valid.
\<close>

theorem C8_prefix_counterexample:
  "padded_vector \<noteq> [] \<and> \<not> startsWith padded_vector ''CVSS:4.0/''
   \<and> parseVector padded_vector =
       \<lparr>p_metrics = Some (parsed_metrics padded_vector), p_isValid = True, p_error = None\<rparr>"
proof -
  have 1: "padded_vector \<noteq> []" "\<not> startsWith padded_vector ''CVSS:4.0/''"
    by (simp_all add: padded_vector_def startsWith_def)
  have "\<forall>k\<in>set BASE_METRIC_ORDER. has_valid (parsed_metrics padded_vector) k"
    unfolding padded_vector_parsed(2)
    by (simp add: BASE_METRIC_ORDER_def has_valid_upd CVSS4_METRICS_def)
  then have "validate (parsed_metrics padded_vector) BASE_METRIC_ORDER = None"
    using validate_all_valid parsed_metrics_nonempty by blast
  then show ?thesis
    using 1 by (simp add: parseVector_prefixed [OF 1(1) padded_vector_parsed(1)])
qed

text \<open>
  Claim C8, amended.  \<open>parseVector\<close> fails with a prefix/format error for every input
  that is empty or that, once surrounding white space is trimmed, does not start with the
  fixed prefix \<open>CVSS:4.0/\<close>.  Otherwise let \<open>k\<close> be the first required base metric, in
  the order AV, AC, AT, PR, UI, VC, VI, VA, SC, SI, SA, that is absent or whose value is
  outside its enumeration: if \<open>k\<close> is absent the result is invalid and names \<open>k\<close> as
  missing; if \<open>k\<close> has the value \<open>v\<close> outside its enumeration the result is invalid and
  names \<open>k\<close> and \<open>v\<close>.  If no required base metric is missing or invalid, the string is
  reported valid, whatever other tokens it has.
\<close>

theorem C8_parseVector:
  "(s = [] \<longrightarrow>
      parseVector s = \<lparr>p_metrics = None, p_isValid = False, p_error = Some ''Empty vector''\<rparr>)
   \<and> (s \<noteq> [] \<and> \<not> startsWith (trim s) ''CVSS:4.0/'' \<longrightarrow>
      parseVector s =
        \<lparr>p_metrics = None, p_isValid = False, p_error = Some ''Must start with CVSS:4.0/''\<rparr>)
   \<and> (s \<noteq> [] \<and> startsWith (trim s) ''CVSS:4.0/'' \<and> BASE_METRIC_ORDER = pre @ k # post
       \<and> (\<forall>k'\<in>set pre. has_valid (parsed_metrics s) k') \<and> parsed_metrics s k = None \<longrightarrow>
      parseVector s =
        \<lparr>p_metrics = Some (parsed_metrics s), p_isValid = False,
         p_error = Some (''Missing metric: '' @ k)\<rparr>)
   \<and> (s \<noteq> [] \<and> startsWith (trim s) ''CVSS:4.0/'' \<and> BASE_METRIC_ORDER = pre @ k # post
       \<and> (\<forall>k'\<in>set pre. has_valid (parsed_metrics s) k') \<and> parsed_metrics s k = Some v
       \<and> \<not> has_valid (parsed_metrics s) k \<longrightarrow>
      parseVector s =
        \<lparr>p_metrics = Some (parsed_metrics s), p_isValid = False,
         p_error = Some (''Invalid value for '' @ k @ '': '' @ v)\<rparr>)
   \<and> (s \<noteq> [] \<and> startsWith (trim s) ''CVSS:4.0/''
       \<and> (\<forall>k'\<in>set BASE_METRIC_ORDER. has_valid (parsed_metrics s) k') \<longrightarrow>
      parseVector s = \<lparr>p_metrics = Some (parsed_metrics s), p_isValid = True, p_error = None\<rparr>)"
proof -
  have ne: "\<forall>k. parsed_metrics s k \<noteq> Some []"
    using parsed_metrics_nonempty by blast
  have a: "s = [] \<Longrightarrow>
      parseVector s = \<lparr>p_metrics = None, p_isValid = False, p_error = Some ''Empty vector''\<rparr>"
    by (simp add: parseVector_def)
  have b: "s \<noteq> [] \<Longrightarrow> \<not> startsWith (trim s) ''CVSS:4.0/'' \<Longrightarrow>
      parseVector s =
        \<lparr>p_metrics = None, p_isValid = False, p_error = Some ''Must start with CVSS:4.0/''\<rparr>"
    by (simp add: parseVector_def)
  have c: "parseVector s =
        \<lparr>p_metrics = Some (parsed_metrics s), p_isValid = False,
         p_error = Some (''Missing metric: '' @ k)\<rparr>"
    if "s \<noteq> []" "startsWith (trim s) ''CVSS:4.0/''" "BASE_METRIC_ORDER = pre @ k # post"
       "\<forall>k'\<in>set pre. has_valid (parsed_metrics s) k'" "parsed_metrics s k = None"
  proof -
    have "\<not> has_valid (parsed_metrics s) k"
      using that(5) by (simp add: has_valid_def)
    then show ?thesis
      using validate_first_bad [OF ne that(3,4)] that(5)
      by (simp add: parseVector_prefixed [OF that(1,2)])
  qed
  have d: "parseVector s =
        \<lparr>p_metrics = Some (parsed_metrics s), p_isValid = False,
         p_error = Some (''Invalid value for '' @ k @ '': '' @ v)\<rparr>"
    if "s \<noteq> []" "startsWith (trim s) ''CVSS:4.0/''" "BASE_METRIC_ORDER = pre @ k # post"
       "\<forall>k'\<in>set pre. has_valid (parsed_metrics s) k'" "parsed_metrics s k = Some v"
       "\<not> has_valid (parsed_metrics s) k"
    using validate_first_bad [OF ne that(3,4,6)] that(5)
    by (simp add: parseVector_prefixed [OF that(1,2)])
  have e: "parseVector s = \<lparr>p_metrics = Some (parsed_metrics s), p_isValid = True, p_error = None\<rparr>"
    if "s \<noteq> []" "startsWith (trim s) ''CVSS:4.0/''"
       "\<forall>k'\<in>set BASE_METRIC_ORDER. has_valid (parsed_metrics s) k'"
    using validate_all_valid [OF ne that(3)]
    by (simp add: parseVector_prefixed [OF that(1,2)])
  show ?thesis
    using a b c d e by blast
qed

theorem C8_parseVector_witness:
  "parseVector [] = \<lparr>p_metrics = None, p_isValid = False, p_error = Some ''Empty vector''\<rparr>
   \<and> parseVector wrong_version =
       \<lparr>p_metrics = None, p_isValid = False, p_error = Some ''Must start with CVSS:4.0/''\<rparr>
   \<and> parseVector missing_av =
       \<lparr>p_metrics = Some (parsed_metrics missing_av), p_isValid = False,
        p_error = Some ''Missing metric: AV''\<rparr>
   \<and> parseVector invalid_ac =
       \<lparr>p_metrics = Some (parsed_metrics invalid_ac), p_isValid = False,
        p_error = Some ''Invalid value for AC: Z''\<rparr>
   \<and> parseVector extra_tokens =
       \<lparr>p_metrics = Some (parsed_metrics extra_tokens), p_isValid = True, p_error = None\<rparr>"
proof -
  have ne: "wrong_version \<noteq> []" "missing_av \<noteq> []" "invalid_ac \<noteq> []" "extra_tokens \<noteq> []"
    by (simp_all add: wrong_version_def missing_av_def invalid_ac_def extra_tokens_def)
  have o1: "BASE_METRIC_ORDER = [] @ ''AV'' # tl BASE_METRIC_ORDER"
    and o2: "BASE_METRIC_ORDER = [''AV''] @ ''AC'' # drop 2 BASE_METRIC_ORDER"
    by (simp_all add: BASE_METRIC_ORDER_def)
  have v4: "\<forall>k'\<in>set [''AV'']. has_valid (parsed_metrics invalid_ac) k'"
    "parsed_metrics invalid_ac ''AC'' = Some ''Z''" "\<not> has_valid (parsed_metrics invalid_ac) ''AC''"
    unfolding witness_strings_parsed(6) by (simp_all add: has_valid_upd CVSS4_METRICS_def)
  have v5: "\<forall>k'\<in>set BASE_METRIC_ORDER. has_valid (parsed_metrics extra_tokens) k'"
    unfolding witness_strings_parsed(7)
    by (simp add: BASE_METRIC_ORDER_def has_valid_upd CVSS4_METRICS_def)
  show ?thesis
    using C8_parseVector [of "[]"]
          C8_parseVector [of wrong_version]
          C8_parseVector [of missing_av "[]" "''AV''" "tl BASE_METRIC_ORDER"]
          C8_parseVector [of invalid_ac "[''AV'']" "''AC''" "drop 2 BASE_METRIC_ORDER" "''Z''"]
          C8_parseVector [of extra_tokens]
          ne witness_strings_parsed(1-5) o1 o2 v4 v5
    by simp
qed

subsection \<open>Parsing a built vector\<close>

lemma buildVector_base_value:
  "buildVector m = ''CVSS:4.0/'' @ join ''/'' (map (\<lambda>k. k @ '':'' @ base_value m k) BASE_METRIC_ORDER)"
  by (simp add: buildVector_def base_value_def)

lemma enumerated_plain: "k \<in> set BASE_METRIC_ORDER \<Longrightarrow> enumerated k v \<Longrightarrow> plain v"
  by (auto simp: BASE_METRIC_ORDER_def enumerated_def CVSS4_METRICS_def plain_def isWhiteSpace_def)

lemma base_keys_plain: "k \<in> set BASE_METRIC_ORDER \<Longrightarrow> plain k"
  by (auto simp: BASE_METRIC_ORDER_def plain_def isWhiteSpace_def)

lemma parse_build:
  assumes "\<forall>k\<in>set BASE_METRIC_ORDER. enumerated k (base_value m k)"
  shows "parseVector (buildVector m) =
           \<lparr>p_metrics = Some (\<lambda>k. if k \<in> set BASE_METRIC_ORDER then Some (base_value m k) else None),
            p_isValid = True, p_error = None\<rparr>"
proof -
  let ?f = "base_value m"
  let ?parts = "map (\<lambda>k. k @ '':'' @ ?f k) BASE_METRIC_ORDER"
  let ?b = "buildVector m"
  have pl: "\<forall>k\<in>set BASE_METRIC_ORDER. plain k \<and> plain (?f k)"
    using assms enumerated_plain base_keys_plain by blast
  have b: "?b = ''CVSS:4.0/'' @ join ''/'' ?parts"
    by (rule buildVector_base_value)
  have "plain (?f ''SA'')"
    using pl by (simp add: BASE_METRIC_ORDER_def)
  then have "?f ''SA'' \<noteq> []" "\<not> isWhiteSpace (last (?f ''SA''))"
    by (simp_all add: plain_def)
  then have "?b \<noteq> []" "\<not> isWhiteSpace (hd ?b)" "\<not> isWhiteSpace (last ?b)"
    by (simp_all add: b BASE_METRIC_ORDER_def isWhiteSpace_def)
  then have t: "trim ?b = ?b"
    by (rule trim_id)
  have sw: "startsWith ?b ''CVSS:4.0/''"
    by (simp add: b startsWith_def)
  have r: "replace_first ''CVSS:4.0/'' ?b = join ''/'' ?parts"
    using replace_first_prefix [OF sw] by (simp add: b)
  have "\<forall>p\<in>set ?parts. CHR ''/'' \<notin> set p"
    using pl by (auto simp: plain_def)
  moreover have "?parts \<noteq> []"
    by (simp add: BASE_METRIC_ORDER_def)
  ultimately have sp: "split (CHR ''/'') (join ''/'' ?parts) = ?parts"
    using split_join [of ?parts "CHR ''/''"] by simp
  have "\<forall>k\<in>set BASE_METRIC_ORDER. k \<noteq> [] \<and> CHR '':'' \<notin> set k \<and> ?f k \<noteq> [] \<and> CHR '':'' \<notin> set (?f k)"
    using pl by (auto simp: plain_def)
  then have "foldl assign_part Map.empty ?parts =
               (\<lambda>k. if k \<in> set BASE_METRIC_ORDER then Some (?f k) else None)"
    by (rule foldl_assign_parts)
  moreover have "parsed_metrics ?b = foldl assign_part Map.empty ?parts"
    by (simp only: parsed_metrics_def t r sp)
  ultimately have pm:
    "parsed_metrics ?b = (\<lambda>k. if k \<in> set BASE_METRIC_ORDER then Some (?f k) else None)"
    by (simp only:)
  have "\<forall>k\<in>set BASE_METRIC_ORDER. has_valid (parsed_metrics ?b) k"
    using assms by (simp add: pm has_valid_enumerated)
  then have "validate (parsed_metrics ?b) BASE_METRIC_ORDER = None"
    using validate_all_valid parsed_metrics_nonempty by blast
  then show ?thesis
    using parseVector_prefixed [of ?b] \<open>?b \<noteq> []\<close> sw t by (simp add: pm)
qed

subsection \<open>The score depends on the effective values only\<close>

lemma map_filter_cong_set:
  "(\<And>x. x \<in> set xs \<Longrightarrow> f x = g x) \<Longrightarrow> List.map_filter f xs = List.map_filter g xs"
  by (induction xs) (auto simp: map_filter_simps split: option.splits)

lemma severityDistances_cong:
  assumes "\<forall>k\<in>set (map fst METRIC_LEVELS). effectiveValue m k = effectiveValue m' k"
  shows "severityDistances m mv = severityDistances m' mv"
  unfolding severityDistances_def
  by (rule map_filter_cong_set) (use assms in \<open>force simp: Let_def split: option.splits\<close>)

lemma firstDistances_cong:
  assumes "\<forall>k\<in>set (map fst METRIC_LEVELS). effectiveValue m k = effectiveValue m' k"
  shows "firstDistances m mvs = firstDistances m' mvs"
  by (induction mvs) (simp_all add: severityDistances_cong [OF assms] Let_def)

lemma macroVector_cong:
  assumes "\<forall>k\<in>set (map fst METRIC_LEVELS). effectiveValue m k = effectiveValue m' k"
    "js_or (m ''MSI'') ''X'' = js_or (m' ''MSI'') ''X''"
    "js_or (m ''MSA'') ''X'' = js_or (m' ''MSA'') ''X''"
  shows "macroVector m = macroVector m'"
proof -
  have "effectiveValue m ''AV'' = effectiveValue m' ''AV''" "effectiveValue m ''PR'' = effectiveValue m' ''PR''"
    "effectiveValue m ''UI'' = effectiveValue m' ''UI''" "effectiveValue m ''AC'' = effectiveValue m' ''AC''"
    "effectiveValue m ''AT'' = effectiveValue m' ''AT''" "effectiveValue m ''VC'' = effectiveValue m' ''VC''"
    "effectiveValue m ''VI'' = effectiveValue m' ''VI''" "effectiveValue m ''VA'' = effectiveValue m' ''VA''"
    "effectiveValue m ''SC'' = effectiveValue m' ''SC''" "effectiveValue m ''SI'' = effectiveValue m' ''SI''"
    "effectiveValue m ''SA'' = effectiveValue m' ''SA''" "effectiveValue m ''E'' = effectiveValue m' ''E''"
    "effectiveValue m ''CR'' = effectiveValue m' ''CR''" "effectiveValue m ''IR'' = effectiveValue m' ''IR''"
    "effectiveValue m ''AR'' = effectiveValue m' ''AR''"
    using assms(1) by (simp_all add: METRIC_LEVELS_def)
  then show ?thesis
    by (simp only: macroVector_def assms(2,3))
qed

lemma calculateScoreWith_cong:
  assumes "\<forall>k\<in>set (map fst METRIC_LEVELS). effectiveValue m k = effectiveValue m' k"
    "js_or (m ''MSI'') ''X'' = js_or (m' ''MSI'') ''X''"
    "js_or (m ''MSA'') ''X'' = js_or (m' ''MSA'') ''X''"
  shows "calculateScoreWith tbl m = calculateScoreWith tbl m'"
proof -
  have "list_all (\<lambda>k. effectiveValue m k = ''N'') impactMetrics
          = list_all (\<lambda>k. effectiveValue m' k = ''N'') impactMetrics"
    using assms(1) by (simp add: impactMetrics_def METRIC_LEVELS_def)
  then show ?thesis
    by (simp only: calculateScoreWith_def macroVector_cong [OF assms] firstDistances_cong [OF assms(1)])
qed

lemma modified_not_base: "k \<in> set (map fst METRIC_LEVELS) \<Longrightarrow> ''M'' @ k \<notin> set BASE_METRIC_ORDER"
  by (auto simp: METRIC_LEVELS_def BASE_METRIC_ORDER_def)

lemma base_default:
  "k \<in> set BASE_METRIC_ORDER \<Longrightarrow>
   \<exists>d. map_of CVSS4_DEFAULTS k = Some d \<and> d \<noteq> [] \<and> d \<noteq> ''X'' \<and> enumerated k d \<and> map_of worstCase k = None"
  by (auto simp: BASE_METRIC_ORDER_def CVSS4_DEFAULTS_def enumerated_def CVSS4_METRICS_def worstCase_def)

lemma enumerated_not_X: "enumerated k v \<Longrightarrow> v \<noteq> ''X'' \<and> v \<noteq> []"
  by (auto simp: enumerated_def CVSS4_METRICS_def split: option.splits if_splits)

lemma base_value_enumerated:
  assumes "k \<in> set BASE_METRIC_ORDER" "\<forall>v. m k = Some v \<longrightarrow> enumerated k v"
  shows "enumerated k (base_value m k)"
proof (cases "m k")
  case None
  then show ?thesis
    using base_default [OF assms(1)] by (auto simp: base_value_def js_or_def)
next
  case (Some v)
  then show ?thesis
    using assms(2) enumerated_not_X [of k v] by (auto simp: base_value_def js_or_def)
qed

lemma effectiveValue_completed:
  assumes "dom m \<subseteq> set BASE_METRIC_ORDER" "\<forall>k v. m k = Some v \<longrightarrow> enumerated k v"
    "k \<in> set (map fst METRIC_LEVELS)"
  shows "effectiveValue (completed m) k = effectiveValue m k"
proof -
  have M: "m (''M'' @ k) = None" "completed m (''M'' @ k) = None"
    using modified_not_base [OF assms(3)] assms(1) by (auto simp: completed_def)
  show ?thesis
  proof (cases "k \<in> set BASE_METRIC_ORDER")
    case True
    obtain d where d: "map_of CVSS4_DEFAULTS k = Some d" "d \<noteq> []" "d \<noteq> ''X''" "map_of worstCase k = None"
      using base_default [OF True] by blast
    show ?thesis
    proof (cases "m k")
      case None
      then show ?thesis
        using True d M by (simp add: effectiveValue_def completed_def base_value_def js_or_def)
    next
      case (Some v)
      then have "v \<noteq> ''X''" "v \<noteq> []"
        using assms(2) enumerated_not_X by blast+
      then show ?thesis
        using True Some M by (simp add: effectiveValue_def completed_def base_value_def js_or_def)
    qed
  next
    case False
    then have "m k = None" "completed m k = None"
      using assms(1) by (auto simp: completed_def)
    then show ?thesis
      using M by (simp add: effectiveValue_def)
  qed
qed

lemma calculateScore_completed:
  assumes "dom m \<subseteq> set BASE_METRIC_ORDER" "\<forall>k v. m k = Some v \<longrightarrow> enumerated k v"
  shows "calculateScore (completed m) = calculateScore m"
proof -
  have "''MSI'' \<notin> set BASE_METRIC_ORDER" "''MSA'' \<notin> set BASE_METRIC_ORDER"
    by (simp_all add: BASE_METRIC_ORDER_def)
  then have "m ''MSI'' = None" "m ''MSA'' = None" "completed m ''MSI'' = None" "completed m ''MSA'' = None"
    using assms(1) by (auto simp: completed_def)
  then show ?thesis
    unfolding calculateScore_def
    using calculateScoreWith_cong [of "completed m" m] effectiveValue_completed [OF assms]
    by simp
qed

text \<open>
  Claim C1, as stated: for every metrics object the score is recomputable from the returned
  vector.  \<open>buildVector\<close> writes the eleven base metrics only, while \<open>calculateScore\<close>
  reads the threat metric as well: with \<open>E:U\<close> the score is 9.1, and the returned vector
  scores 10.
\<close>

theorem C1_dropped_metric_counterexample:
  "metricsToScore unreported_exploit =
     Inr \<lparr>m_score = Some (Num 9.1), m_severity = Some ''CRITICAL'', m_vector = all_high_vector\<rparr>
   \<and> vectorToScore all_high_vector =
     Inr \<lparr>v_score = Some (Num 10), v_severity = Some ''CRITICAL'', v_isValid = True, v_error = None\<rparr>"
  by code_simp

subsection \<open>Vector and score\<close>

text \<open>
  Claim C1, amended.  For every metrics object that assigns values to base metrics only,
  each value from the enumeration of its metric (base metrics may be missing),
  \<open>vectorToScore\<close> on the vector returned by \<open>metricsToScore\<close> is valid and returns the
  same score and the same severity as \<open>metricsToScore\<close>.
\<close>

theorem C1_recomputable:
  assumes "dom m \<subseteq> set BASE_METRIC_ORDER" "\<forall>k v. m k = Some v \<longrightarrow> enumerated k v"
  shows "\<exists>r r'. metricsToScore m = Inr r \<and> vectorToScore (m_vector r) = Inr r'
           \<and> v_isValid r' \<and> v_score r' = m_score r \<and> v_severity r' = m_severity r"
proof -
  have "\<forall>k\<in>set BASE_METRIC_ORDER. enumerated k (base_value m k)"
    using base_value_enumerated assms(2) by blast
  then have p: "parseVector (buildVector m) =
                  \<lparr>p_metrics = Some (completed m), p_isValid = True, p_error = None\<rparr>"
    unfolding completed_def by (rule parse_build)
  obtain s where s: "calculateScore m = Inr (Some s)"
    using calculateScore_total by blast
  then have "calculateScore (completed m) = Inr (Some s)"
    using calculateScore_completed [OF assms] by simp
  then show ?thesis
    using s by (simp add: metricsToScore_def vectorToScore_def p)
qed

theorem C1_recomputable_witness:
  "dom low_confidentiality \<subseteq> set BASE_METRIC_ORDER
   \<and> low_confidentiality ''VC'' = Some ''L'' \<and> enumerated ''VC'' ''L''
   \<and> (\<exists>r r'. metricsToScore low_confidentiality = Inr r \<and> vectorToScore (m_vector r) = Inr r'
           \<and> v_isValid r' \<and> v_score r' = m_score r \<and> v_severity r' = m_severity r)"
proof -
  have 1: "dom low_confidentiality \<subseteq> set BASE_METRIC_ORDER"
    by (simp add: low_confidentiality_def BASE_METRIC_ORDER_def)
  have 2: "\<forall>k v. low_confidentiality k = Some v \<longrightarrow> enumerated k v"
    by (simp add: low_confidentiality_def enumerated_def CVSS4_METRICS_def)
  have 3: "low_confidentiality ''VC'' = Some ''L''" "enumerated ''VC'' ''L''"
    by (simp_all add: low_confidentiality_def enumerated_def CVSS4_METRICS_def)
  show ?thesis
    using C1_recomputable [OF 1 2] 1 3 by blast
qed

subsection \<open>The assignments of a vector string\<close>
















text \<open>
  Claim C6, as stated: scoring a metrics object with a value outside the enumeration of its
  metric fails and never returns a number.  \<open>metricsToScore\<close> with \<open>AV:Z\<close> returns the
  score 7.2 and the label HIGH.
\<close>

theorem C6_unvalidated_counterexample:
  "invalid_attack_vector ''AV'' = Some ''Z'' \<and> \<not> enumerated ''AV'' ''Z''
   \<and> metricsToScore invalid_attack_vector =
       Inr \<lparr>m_score = Some (Num 7.2), m_severity = Some ''HIGH'',
            m_vector = ''CVSS:4.0/AV:Z/AC:L/AT:N/PR:N/UI:N/VC:H/VI:N/VA:N/SC:N/SI:N/SA:N''\<rparr>"
  by code_simp

text \<open>
  Claim C6, amended.  \<open>metricsToScore\<close> checks no enumeration: for every metrics object it
  returns a result with a score.  \<open>vectorToScore\<close> on a string with the prefix in which a
  required base metric has a value outside its enumeration returns no score and no
  severity, with \<open>isValid = false\<close> and an error message; when that metric is the first
  missing or invalid one in the fixed order, the message names the metric and the value.
\<close>

theorem C6_validation:
  "(\<exists>r. metricsToScore m = Inr r \<and> m_score r \<noteq> None)
   \<and> (s \<noteq> [] \<and> startsWith (trim s) ''CVSS:4.0/'' \<and> k \<in> set BASE_METRIC_ORDER
       \<and> parsed_metrics s k = Some v \<and> \<not> enumerated k v \<longrightarrow>
      (\<exists>e. vectorToScore s =
         Inr \<lparr>v_score = None, v_severity = None, v_isValid = False, v_error = Some e\<rparr>))
   \<and> (s \<noteq> [] \<and> startsWith (trim s) ''CVSS:4.0/'' \<and> BASE_METRIC_ORDER = pre @ k # post
       \<and> (\<forall>k'\<in>set pre. has_valid (parsed_metrics s) k')
       \<and> parsed_metrics s k = Some v \<and> \<not> enumerated k v \<longrightarrow>
      vectorToScore s =
        Inr \<lparr>v_score = None, v_severity = None, v_isValid = False,
             v_error = Some (''Invalid value for '' @ k @ '': '' @ v)\<rparr>)"
proof -
  have ne: "\<forall>k. parsed_metrics s k \<noteq> Some []"
    using parsed_metrics_nonempty by blast
  have a: "\<exists>r. metricsToScore m = Inr r \<and> m_score r \<noteq> None"
    using calculateScore_total [of m] by (auto simp: metricsToScore_def)
  have b: "\<exists>e. vectorToScore s =
         Inr \<lparr>v_score = None, v_severity = None, v_isValid = False, v_error = Some e\<rparr>"
    if "s \<noteq> []" "startsWith (trim s) ''CVSS:4.0/''" "k \<in> set BASE_METRIC_ORDER"
       "parsed_metrics s k = Some v" "\<not> enumerated k v"
  proof -
    have "\<not> has_valid (parsed_metrics s) k"
      using that(4,5) by (simp add: has_valid_enumerated)
    then have "validate (parsed_metrics s) BASE_METRIC_ORDER \<noteq> None"
      using validate_None_valid [OF ne, of BASE_METRIC_ORDER] that(3) by blast
    then show ?thesis
      by (auto simp: vectorToScore_def parseVector_prefixed [OF that(1,2)])
  qed
  have c: "vectorToScore s =
        Inr \<lparr>v_score = None, v_severity = None, v_isValid = False,
             v_error = Some (''Invalid value for '' @ k @ '': '' @ v)\<rparr>"
    if "s \<noteq> []" "startsWith (trim s) ''CVSS:4.0/''" "BASE_METRIC_ORDER = pre @ k # post"
       "\<forall>k'\<in>set pre. has_valid (parsed_metrics s) k'"
       "parsed_metrics s k = Some v" "\<not> enumerated k v"
  proof -
    have "\<not> has_valid (parsed_metrics s) k"
      using that(5,6) by (simp add: has_valid_enumerated)
    then show ?thesis
      using validate_first_bad [OF ne that(3,4)] that(5)
      by (simp add: vectorToScore_def parseVector_prefixed [OF that(1,2)])
  qed
  show ?thesis
    using a b c by blast
qed

theorem C6_validation_witness:
  "(\<exists>r. metricsToScore invalid_attack_vector = Inr r \<and> m_score r \<noteq> None)
   \<and> vectorToScore invalid_ac =
        Inr \<lparr>v_score = None, v_severity = None, v_isValid = False,
             v_error = Some ''Invalid value for AC: Z''\<rparr>"
proof -
  have ne: "invalid_ac \<noteq> []"
    by (simp add: invalid_ac_def)
  have o2: "BASE_METRIC_ORDER = [''AV''] @ ''AC'' # drop 2 BASE_METRIC_ORDER"
    by (simp add: BASE_METRIC_ORDER_def)
  have v4: "\<forall>k'\<in>set [''AV'']. has_valid (parsed_metrics invalid_ac) k'"
    "parsed_metrics invalid_ac ''AC'' = Some ''Z''" "\<not> enumerated ''AC'' ''Z''"
    unfolding witness_strings_parsed(6)
    by (simp_all add: has_valid_upd enumerated_def CVSS4_METRICS_def)
  show ?thesis
    using C6_validation [of invalid_attack_vector invalid_ac "''AC''" "''Z''" "[''AV'']"
                            "drop 2 BASE_METRIC_ORDER"]
          ne witness_strings_parsed(3) o2 v4
    by simp
qed

end
